theory Spec2Isabelle
  imports Complex_Main "HOL-Library.Word" "HOL-Library.Sublist"
begin

section \<open>JavaScript values as the worker sees them\<close>

text \<open>
  The worker of \<^verbatim>\<open>src/index.ts\<close> is one async function, \<^verbatim>\<open>fetch(request, env)\<close>.
  Everything it computes is dynamically typed: the request body and the upstream body are
  whatever \<^verbatim>\<open>JSON.parse\<close> produced, and the TypeScript annotations
  (\<^verbatim>\<open>as GraphQLRequest\<close>, \<^verbatim>\<open>as string\<close>) are erased at run time. The model therefore
  works on JavaScript values, not on the declared interfaces.

  A JavaScript string is a sequence of UTF-16 code units.
\<close>

type_synonym jsstring = "16 word list"

definition str :: "string \<Rightarrow> jsstring" where
  "str s = map of_char s"

datatype jsval =
    JUndefined
  | JNull
  | JBool bool
  | JNum real
  | JStr jsstring
  | JArr "jsval list"
  | JObj "(jsstring \<times> jsval) list"

text \<open>
  \<^verbatim>\<open>!v\<close> is \<open>\<not> truthy v\<close>. (\<^verbatim>\<open>NaN\<close> is falsy too, but no JSON text parses to it.)
\<close>

fun truthy :: "jsval \<Rightarrow> bool" where
  "truthy JUndefined = False"
| "truthy JNull = False"
| "truthy (JBool b) = b"
| "truthy (JNum x) = (x \<noteq> 0)"
| "truthy (JStr s) = (s \<noteq> [])"
| "truthy (JArr xs) = True"
| "truthy (JObj kvs) = True"

text \<open>
  A thrown value: an instance of \<^verbatim>\<open>Error\<close> with its \<^verbatim>\<open>message\<close>, or anything else.
  That is all the two \<^verbatim>\<open>catch\<close> blocks of the worker look at.
\<close>

datatype js_exn = ErrorInstance jsstring | NonError

text \<open>
  The faults the engine itself raises in this program: reading a property of
  \<^verbatim>\<open>undefined\<close>/\<^verbatim>\<open>null\<close>, and calling something that is not a function. Both are
  \<^verbatim>\<open>TypeError\<close>s; the wording of their message is the engine's.
\<close>

datatype type_fault = ReadOfNullish jsval jsstring | NotAFunction jsval jsstring

text \<open>
  What the platform supplies and the repository does not define:
  \<^verbatim>\<open>String.prototype.toLowerCase\<close> (the Unicode case mapping) and the text of the
  engine's \<^verbatim>\<open>TypeError\<close> messages. Every theorem below holds for any such platform.
\<close>

record platform =
  toLowerCase :: "jsstring \<Rightarrow> jsstring"
  typeErrorMessage :: "type_fault \<Rightarrow> jsstring"

definition typeError :: "platform \<Rightarrow> type_fault \<Rightarrow> js_exn" where
  "typeError pf f = ErrorInstance (typeErrorMessage pf f)"

text \<open>
  \<^verbatim>\<open>v.k\<close> for a property name \<open>k\<close> that no built-in prototype defines (the names this
  program reads are \<^verbatim>\<open>query\<close>, \<^verbatim>\<open>variables\<close>, \<^verbatim>\<open>input\<close>, \<^verbatim>\<open>choices\<close>, \<^verbatim>\<open>message\<close>,
  \<^verbatim>\<open>content\<close>): it throws on \<^verbatim>\<open>undefined\<close> and \<^verbatim>\<open>null\<close>, finds an own property
  of an object, and is \<^verbatim>\<open>undefined\<close> everywhere else.
\<close>

definition get_prop :: "platform \<Rightarrow> jsval \<Rightarrow> jsstring \<Rightarrow> js_exn + jsval" where
  "get_prop pf v k =
     (case v of
        JUndefined \<Rightarrow> Inl (typeError pf (ReadOfNullish v k))
      | JNull \<Rightarrow> Inl (typeError pf (ReadOfNullish v k))
      | JObj kvs \<Rightarrow> Inr (case map_of kvs k of None \<Rightarrow> JUndefined | Some x \<Rightarrow> x)
      | _ \<Rightarrow> Inr JUndefined)"

text \<open>
  \<^verbatim>\<open>v[0]\<close>: the first element of an array, the first code unit of a string (as a
  one-unit string), the own property \<^verbatim>\<open>"0"\<close> of an object.
\<close>

definition index0 :: "platform \<Rightarrow> jsval \<Rightarrow> js_exn + jsval" where
  "index0 pf v =
     (case v of
        JUndefined \<Rightarrow> Inl (typeError pf (ReadOfNullish v (str ''0'')))
      | JNull \<Rightarrow> Inl (typeError pf (ReadOfNullish v (str ''0'')))
      | JStr s \<Rightarrow> Inr (case s of [] \<Rightarrow> JUndefined | c # cs \<Rightarrow> JStr [c])
      | JArr xs \<Rightarrow> Inr (case xs of [] \<Rightarrow> JUndefined | x # ys \<Rightarrow> x)
      | JObj kvs \<Rightarrow> Inr (case map_of kvs (str ''0'') of None \<Rightarrow> JUndefined | Some x \<Rightarrow> x)
      | _ \<Rightarrow> Inr JUndefined)"

text \<open>
  \<^verbatim>\<open>v.toLowerCase()\<close>: only a string has the method. On any other JSON value the
  property is missing or (for an object with such a key) not callable.
\<close>

definition call_toLowerCase :: "platform \<Rightarrow> jsval \<Rightarrow> js_exn + jsstring" where
  "call_toLowerCase pf v =
     (case v of
        JStr s \<Rightarrow> Inr (toLowerCase pf s)
      | JUndefined \<Rightarrow> Inl (typeError pf (ReadOfNullish v (str ''toLowerCase'')))
      | JNull \<Rightarrow> Inl (typeError pf (ReadOfNullish v (str ''toLowerCase'')))
      | _ \<Rightarrow> Inl (typeError pf (NotAFunction v (str ''toLowerCase''))))"

subsection \<open>String operations\<close>

text \<open>\<^verbatim>\<open>hay.includes(needle)\<close>: \<open>needle\<close> occurs in \<open>hay\<close> as a contiguous run.\<close>

fun str_includes :: "jsstring \<Rightarrow> jsstring \<Rightarrow> bool" where
  "str_includes [] needle = (needle = [])"
| "str_includes (c # cs) needle = (prefix needle (c # cs) \<or> str_includes cs needle)"

text \<open>
  The code units \<^verbatim>\<open>String.prototype.trim\<close> strips: ECMAScript's WhiteSpace
  (TAB, VT, FF, SP, NBSP, ZWNBSP and the Unicode space separators) and LineTerminator
  (LF, CR, LS, PS).
\<close>

definition isWhiteSpace :: "16 word \<Rightarrow> bool" where
  "isWhiteSpace c =
     (c \<in> {0x9, 0xA, 0xB, 0xC, 0xD, 0x20, 0xA0, 0x1680, 0x2028, 0x2029, 0x202F, 0x205F,
            0x3000, 0xFEFF}
      \<or> (0x2000 \<le> c \<and> c \<le> 0x200A))"

definition trim :: "jsstring \<Rightarrow> jsstring" where
  "trim s = rev (dropWhile isWhiteSpace (rev (dropWhile isWhiteSpace s)))"

text \<open>\<^verbatim>\<open>`${n}`\<close> for a non-negative integer: its decimal digits.\<close>

fun show_nat :: "nat \<Rightarrow> jsstring" where
  "show_nat n =
     (if n < 10 then [of_nat (48 + n)]
      else show_nat (n div 10) @ [of_nat (48 + n mod 10)])"

declare show_nat.simps [simp del]

section \<open>The worker's constants\<close>

text \<open>The message literals of \<^verbatim>\<open>src/index.ts\<close>, code unit by code unit.\<close>

definition msg_only_post :: jsstring where
  \<comment> \<open>line 67, "only POST requests are supported"\<close>
  "msg_only_post = [0x53EA, 0x652F, 0x6301] @ str '' POST '' @ [0x8BF7, 0x6C42]"

definition msg_invalid_request :: jsstring where
  \<comment> \<open>line 84, "invalid GraphQL request"\<close>
  "msg_invalid_request = [0x65E0, 0x6548, 0x7684] @ str '' GraphQL '' @ [0x8BF7, 0x6C42]"

definition msg_running :: jsstring where
  \<comment> \<open>line 103, "GraphQL API is running normally"\<close>
  "msg_running = str ''GraphQL API '' @ [0x6B63, 0x5E38, 0x8FD0, 0x884C, 0x4E2D]"

definition msg_input_required :: jsstring where
  \<comment> \<open>line 119, "please provide input content"\<close>
  "msg_input_required = [0x8BF7, 0x63D0, 0x4F9B, 0x8F93, 0x5165, 0x5185, 0x5BB9]"

definition msg_openai_error :: jsstring where
  \<comment> \<open>lines 145 and 153, "OpenAI API error: "\<close>
  "msg_openai_error = str ''OpenAI API '' @ [0x9519, 0x8BEF] @ str '': ''"

definition msg_processing_failed :: jsstring where
  \<comment> \<open>lines 176 and 214, "an error occurred while processing the request"\<close>
  "msg_processing_failed = [0x5904, 0x7406, 0x8BF7, 0x6C42, 0x65F6, 0x51FA, 0x9519]"

definition msg_unsupported :: jsstring where
  \<comment> \<open>line 196, "unsupported GraphQL query"\<close>
  "msg_unsupported =
     [0x4E0D, 0x652F, 0x6301, 0x7684] @ str '' GraphQL '' @ [0x67E5, 0x8BE2]"

definition msg_log_failed :: jsstring where
  \<comment> \<open>lines 175 and 211, the label of the logged exception\<close>
  "msg_log_failed = [0x5904, 0x7406, 0x8BF7, 0x6C42, 0x51FA, 0x9519] @ str '':''"

definition corsHeaders :: "(jsstring \<times> jsstring) list" where
  "corsHeaders =
     [(str ''Access-Control-Allow-Origin'', str ''*''),
      (str ''Access-Control-Allow-Methods'', str ''GET, POST, OPTIONS''),
      (str ''Access-Control-Allow-Headers'', str ''Content-Type, Authorization''),
      (str ''Access-Control-Max-Age'', str ''86400'')]"

definition jsonHeaders :: "(jsstring \<times> jsstring) list" where
  \<comment> \<open>\<^verbatim>\<open>{ 'Content-Type': 'application/json', ...corsHeaders }\<close>\<close>
  "jsonHeaders = (str ''Content-Type'', str ''application/json'') # corsHeaders"

section \<open>Requests, responses and the outside world\<close>

text \<open>
  The response the worker returns. \<open>body_json\<close> is \<open>None\<close> for \<^verbatim>\<open>new Response(null, ...)\<close>
  and otherwise the value handed to \<^verbatim>\<open>JSON.stringify\<close>, whose text is the body
  (a property whose value is \<^verbatim>\<open>undefined\<close> is left out of that text).
\<close>

record http_response =
  status :: nat
  headers :: "(jsstring \<times> jsstring) list"
  body_json :: "jsval option"

text \<open>
  The inbound request as far as the worker reads it: \<^verbatim>\<open>request.method\<close> and the
  outcome of \<^verbatim>\<open>await request.json()\<close>, which rejects on a body that is not JSON.
\<close>

record request =
  req_method :: jsstring
  req_json :: "js_exn + jsval"

record env =
  OPENAI_API_KEY :: jsstring

text \<open>The arguments of the one outbound \<^verbatim>\<open>fetch\<close> (lines 133 to 140).\<close>

record outbound_request =
  out_url :: jsstring
  out_method :: jsstring
  out_headers :: "(jsstring \<times> jsstring) list"
  out_body :: jsval

text \<open>
  The upstream response as far as the worker reads it: \<^verbatim>\<open>status\<close>, and the outcomes of
  \<^verbatim>\<open>await text()\<close> and \<^verbatim>\<open>await json()\<close>, each of which may reject. \<^verbatim>\<open>ok\<close> is
  defined by the Fetch standard as a status from 200 to 299.
\<close>

record upstream_response =
  resp_status :: nat
  resp_text :: "js_exn + jsstring"
  resp_json :: "js_exn + jsval"

definition resp_ok :: "upstream_response \<Rightarrow> bool" where
  "resp_ok r = (200 \<le> resp_status r \<and> resp_status r \<le> 299)"

text \<open>
  The world of one invocation: how the upstream answers a call (it rejects or resolves),
  and the values \<^verbatim>\<open>crypto.randomUUID()\<close> and \<^verbatim>\<open>new Date().toISOString()\<close> yield.
  Every path of the worker builds at most one envelope, so one of each is enough.
\<close>

record world =
  upstream :: "outbound_request \<Rightarrow> js_exn + upstream_response"
  randomUUID :: jsstring
  toISOString :: jsstring

text \<open>
  The effects of an invocation, in order: reading the request body, calling the
  upstream, and writing to \<^verbatim>\<open>console.error\<close>.
\<close>

datatype log_arg = LogText jsstring | LogExn js_exn

datatype event = BodyRead | UpstreamCall outbound_request | ConsoleError "log_arg list"

record outcome =
  response :: http_response
  events :: "event list"

section \<open>The worker\<close>

datatype operation = StatusQuery | SendMessage | Unsupported

text \<open>The conditions of lines 100 and 108, on the lower-cased query, in that order.\<close>

definition classify :: "jsstring \<Rightarrow> operation" where
  "classify query =
     (if str_includes query (str ''query'') \<and> str_includes query (str ''status'')
      then StatusQuery
      else if str_includes query (str ''mutation'') \<and> str_includes query (str ''sendmessage'')
      then SendMessage
      else Unsupported)"

text \<open>\<^verbatim>\<open>{ errors: [{ message }] }\<close>\<close>

definition errors_body :: "jsstring \<Rightarrow> jsval" where
  "errors_body m = JObj [(str ''errors'', JArr [JObj [(str ''message'', JStr m)]])]"

text \<open>
  The object literal the four branches of the sendMessage block build:
  \<^verbatim>\<open>{ result, requestId: crypto.randomUUID(), timestamp: new Date().toISOString(), error }\<close>.
\<close>

definition envelope :: "jsval \<Rightarrow> jsstring \<Rightarrow> jsstring \<Rightarrow> jsval \<Rightarrow> jsval" where
  "envelope res uuid ts err =
     JObj [(str ''result'', res), (str ''requestId'', JStr uuid),
           (str ''timestamp'', JStr ts), (str ''error'', err)]"

definition sendMessage_data :: "jsval \<Rightarrow> jsval" where
  \<comment> \<open>\<^verbatim>\<open>{ data: { sendMessage: e } }\<close>\<close>
  "sendMessage_data e = JObj [(str ''data'', JObj [(str ''sendMessage'', e)])]"

definition status_data :: jsval where
  \<comment> \<open>lines 101 to 105\<close>
  "status_data = JObj [(str ''data'', JObj [(str ''status'', JStr msg_running)])]"

definition openAIRequest :: "jsstring \<Rightarrow> jsval" where
  \<comment> \<open>lines 126 to 130\<close>
  "openAIRequest input =
     JObj [(str ''model'', JStr (str ''gpt-3.5-turbo'')),
           (str ''messages'',
              JArr [JObj [(str ''role'', JStr (str ''user'')), (str ''content'', JStr input)]]),
           (str ''max_tokens'', JNum 500)]"

definition upstream_call :: "env \<Rightarrow> jsstring \<Rightarrow> outbound_request" where
  \<comment> \<open>lines 133 to 140\<close>
  "upstream_call e input =
     \<lparr> out_url = str ''https://api.openai.com/v1/chat/completions'',
       out_method = str ''POST'',
       out_headers =
         [(str ''Content-Type'', str ''application/json''),
          (str ''Authorization'', str ''Bearer '' @ OPENAI_API_KEY e)],
       out_body = openAIRequest input \<rparr>"

text \<open>\<^verbatim>\<open>openAIData.choices[0].message.content\<close> (line 165); each step may throw.\<close>

definition first_choice_content :: "platform \<Rightarrow> jsval \<Rightarrow> js_exn + jsval" where
  "first_choice_content pf openAIData =
     (case get_prop pf openAIData (str ''choices'') of
        Inl e \<Rightarrow> Inl e
      | Inr choices \<Rightarrow>
          (case index0 pf choices of
             Inl e \<Rightarrow> Inl e
           | Inr choice \<Rightarrow>
               (case get_prop pf choice (str ''message'') of
                  Inl e \<Rightarrow> Inl e
                | Inr message \<Rightarrow> get_prop pf message (str ''content''))))"

text \<open>
  The body of the inner \<^verbatim>\<open>try\<close> (lines 125 to 172) after the call has been issued:
  the envelope it assigns to \<^verbatim>\<open>result\<close> and what it logs, or the exception it throws.
\<close>

definition sendMessage_try ::
  "platform \<Rightarrow> world \<Rightarrow> env \<Rightarrow> jsstring \<Rightarrow> js_exn + (jsval \<times> event list)" where
  "sendMessage_try pf w e input =
     (case upstream w (upstream_call e input) of
        Inl err \<Rightarrow> Inl err
      | Inr openAIResponse \<Rightarrow>
          if \<not> resp_ok openAIResponse then
            (case resp_text openAIResponse of
               Inl err \<Rightarrow> Inl err
             | Inr errorText \<Rightarrow>
                 Inr (envelope (JStr []) (randomUUID w) (toISOString w)
                        (JStr (msg_openai_error @ show_nat (resp_status openAIResponse))),
                      [ConsoleError
                         [LogText (msg_openai_error @ show_nat (resp_status openAIResponse)
                                   @ str '' '' @ errorText @ str '' [object Object]'')]]))
          else
            (case resp_json openAIResponse of
               Inl err \<Rightarrow> Inl err
             | Inr openAIData \<Rightarrow>
                 (case first_choice_content pf openAIData of
                    Inl err \<Rightarrow> Inl err
                  | Inr content \<Rightarrow>
                      Inr (envelope content (randomUUID w) (toISOString w) JNull, []))))"

text \<open>The inner \<^verbatim>\<open>catch\<close> (lines 173 to 188).\<close>

definition sendMessage_catch :: "world \<Rightarrow> js_exn \<Rightarrow> jsval \<times> event list" where
  "sendMessage_catch w error =
     (envelope (JStr []) (randomUUID w) (toISOString w)
        (JStr (case error of ErrorInstance m \<Rightarrow> m | NonError \<Rightarrow> msg_processing_failed)),
      [ConsoleError [LogText msg_log_failed, LogExn error]])"

text \<open>
  The sendMessage block (lines 108 to 190): the value assigned to \<^verbatim>\<open>result\<close> and the
  effects, or the exception that leaves the block. The validation of line 112 stands
  outside the inner \<^verbatim>\<open>try\<close>: \<^verbatim>\<open>input.trim()\<close> on a truthy value that is not a string
  throws past the inner \<^verbatim>\<open>catch\<close>.
\<close>

definition sendMessage ::
  "platform \<Rightarrow> world \<Rightarrow> env \<Rightarrow> jsval \<Rightarrow> js_exn + (jsval \<times> event list)" where
  "sendMessage pf w e variables =
     (case get_prop pf variables (str ''input'') of
        Inl err \<Rightarrow> Inl err
      | Inr input \<Rightarrow>
          if \<not> truthy input then
            Inr (sendMessage_data
                   (envelope (JStr []) (randomUUID w) (toISOString w) (JStr msg_input_required)),
                 [])
          else
            (case input of
               JStr s \<Rightarrow>
                 if trim s = [] then
                   Inr (sendMessage_data
                          (envelope (JStr []) (randomUUID w) (toISOString w)
                             (JStr msg_input_required)),
                        [])
                 else
                   (case sendMessage_try pf w e s of
                      Inr (envl, evs) \<Rightarrow>
                        Inr (sendMessage_data envl, UpstreamCall (upstream_call e s) # evs)
                    | Inl error \<Rightarrow>
                        Inr (sendMessage_data (fst (sendMessage_catch w error)),
                             UpstreamCall (upstream_call e s) # snd (sendMessage_catch w error)))
             | _ \<Rightarrow> Inl (typeError pf (NotAFunction input (str ''trim'')))))"

text \<open>
  The body of the outer \<^verbatim>\<open>try\<close> (lines 78 to 209) after \<^verbatim>\<open>request.json()\<close> has been
  awaited: the response it returns and the effects, or the exception it throws.
\<close>

definition post_try ::
  "platform \<Rightarrow> world \<Rightarrow> request \<Rightarrow> env \<Rightarrow> js_exn + (http_response \<times> event list)" where
  "post_try pf w rq e =
     (case req_json rq of
        Inl err \<Rightarrow> Inl err
      | Inr body \<Rightarrow>
          (case get_prop pf body (str ''query'') of
             Inl err \<Rightarrow> Inl err
           | Inr q \<Rightarrow>
               if \<not> truthy q then
                 Inr (\<lparr> status = 400, headers = jsonHeaders,
                         body_json = Some (errors_body msg_invalid_request) \<rparr>, [])
               else
                 (case call_toLowerCase pf q of
                    Inl err \<Rightarrow> Inl err
                  | Inr query \<Rightarrow>
                      (case get_prop pf body (str ''variables'') of
                         Inl err \<Rightarrow> Inl err
                       | Inr vs \<Rightarrow>
                           (case (case classify query of
                                    StatusQuery \<Rightarrow> Inr (status_data, [])
                                  | SendMessage \<Rightarrow>
                                      sendMessage pf w e (if truthy vs then vs else JObj [])
                                  | Unsupported \<Rightarrow> Inr (errors_body msg_unsupported, []))
                            of
                              Inl err \<Rightarrow> Inl err
                            | Inr (result, evs) \<Rightarrow>
                                Inr (\<lparr> status = 200, headers = jsonHeaders,
                                        body_json = Some result \<rparr>, evs))))))"

text \<open>
  \<^verbatim>\<open>fetch(request, env)\<close> (lines 55 to 223). The promise it returns rejects (\<open>Inl\<close>)
  or resolves (\<open>Inr\<close>) with a response.
\<close>

definition fetch :: "platform \<Rightarrow> world \<Rightarrow> request \<Rightarrow> env \<Rightarrow> js_exn + outcome" where
  "fetch pf w rq e =
     (if req_method rq = str ''OPTIONS'' then
        Inr \<lparr> response = \<lparr> status = 204, headers = corsHeaders, body_json = None \<rparr>, events = [] \<rparr>
      else if req_method rq \<noteq> str ''POST'' then
        Inr \<lparr> response = \<lparr> status = 405, headers = jsonHeaders,
                            body_json = Some (errors_body msg_only_post) \<rparr>,
              events = [] \<rparr>
      else
        (case post_try pf w rq e of
           Inr (resp, evs) \<Rightarrow> Inr \<lparr> response = resp, events = BodyRead # evs \<rparr>
         | Inl error \<Rightarrow>
             Inr \<lparr> response = \<lparr> status = 500, headers = jsonHeaders,
                                 body_json = Some (errors_body msg_processing_failed) \<rparr>,
                   events = [BodyRead, ConsoleError [LogText msg_log_failed, LogExn error]] \<rparr>))"

section \<open>Concrete scenarios\<close>

text \<open>
  A platform, a world and requests to run the worker on. The platform's lower-casing
  is the ASCII part of the Unicode mapping, which is all the scenarios below need.
\<close>

definition ascii_lower :: "16 word \<Rightarrow> 16 word" where
  "ascii_lower c = (if 0x41 \<le> c \<and> c \<le> 0x5A then c + 0x20 else c)"

definition example_platform :: platform where
  "example_platform =
     \<lparr> toLowerCase = map ascii_lower,
       typeErrorMessage =
         (\<lambda>f. case f of
                ReadOfNullish v k \<Rightarrow> str ''Cannot read properties of undefined''
              | NotAFunction v k \<Rightarrow> str ''is not a function'') \<rparr>"

definition example_world :: "(js_exn + upstream_response) \<Rightarrow> world" where
  "example_world answer =
     \<lparr> upstream = (\<lambda>call. answer),
       randomUUID = str ''3b241101-e2bb-4255-8caf-4136c566a962'',
       toISOString = str ''2024-05-01T12:00:00.000Z'' \<rparr>"

definition example_env :: env where
  "example_env = \<lparr> OPENAI_API_KEY = str ''sk-test'' \<rparr>"

definition post_request :: "jsval \<Rightarrow> request" where
  "post_request b = \<lparr> req_method = str ''POST'', req_json = Inr b \<rparr>"

definition graphql_body :: "jsval \<Rightarrow> jsval \<Rightarrow> jsval" where
  \<comment> \<open>\<^verbatim>\<open>{ "query": q, "variables": { "input": inp } }\<close>\<close>
  "graphql_body q inp =
     JObj [(str ''query'', q), (str ''variables'', JObj [(str ''input'', inp)])]"

definition completion :: "jsval list \<Rightarrow> upstream_response" where
  \<comment> \<open>a 200 response whose JSON body is \<^verbatim>\<open>{ "choices": [...] }\<close>\<close>
  "completion choices =
     \<lparr> resp_status = 200, resp_text = Inl (ErrorInstance (str ''body used'')),
       resp_json = Inr (JObj [(str ''choices'', JArr choices)]) \<rparr>"

definition choice :: "jsstring \<Rightarrow> jsval" where
  "choice text =
     JObj [(str ''message'',
            JObj [(str ''role'', JStr (str ''assistant'')), (str ''content'', JStr text)])]"

definition rejection :: "nat \<Rightarrow> (js_exn + jsstring) \<Rightarrow> upstream_response" where
  \<comment> \<open>a response with the given status and outcome of \<^verbatim>\<open>text()\<close>\<close>
  "rejection code text =
     \<lparr> resp_status = code, resp_text = text,
       resp_json = Inl (ErrorInstance (str ''Unexpected token'')) \<rparr>"

text \<open>The two conditions of the envelope invariant, and which events are outbound calls.\<close>

definition nonempty_string :: "jsval \<Rightarrow> bool" where
  "nonempty_string v = (case v of JStr s \<Rightarrow> s \<noteq> [] | _ \<Rightarrow> False)"

definition error_present :: "jsval \<Rightarrow> bool" where
  "error_present err = (err \<noteq> JNull)"

fun is_upstream_call :: "event \<Rightarrow> bool" where
  "is_upstream_call (UpstreamCall c) = True"
| "is_upstream_call BodyRead = False"
| "is_upstream_call (ConsoleError args) = False"

section \<open>Facts about the string operations\<close>

lemma method_literals:
  "str ''POST'' \<noteq> str ''OPTIONS''" "str ''GET'' \<noteq> str ''OPTIONS''"
  "str ''GET'' \<noteq> str ''POST''"
  by (simp_all add: str_def)

lemma str_includes_sublist: "str_includes hay needle \<longleftrightarrow> sublist needle hay"
  by (induction hay) (auto simp: sublist_Cons_right)

lemma str_includes_append: "str_includes (xs @ ys) ys"
  by (simp add: str_includes_sublist)

lemma dropWhile_all: "(\<forall>x\<in>set (dropWhile P xs). P x) \<longleftrightarrow> (\<forall>x\<in>set xs. P x)"
  by (induction xs) auto

lemma trim_Nil_iff: "trim s = [] \<longleftrightarrow> (\<forall>c\<in>set s. isWhiteSpace c)"
  by (simp add: trim_def dropWhile_all)

section \<open>The structure of the handler\<close>

text \<open>
  How \<open>fetch\<close> unfolds on a \<^verbatim>\<open>POST\<close>, \<open>post_try\<close> on a body whose
  \<^verbatim>\<open>query\<close> is falsy or a non-empty string, and \<open>sendMessage\<close> on each kind of
  input and upstream outcome.
\<close>

lemma fetch_POST:
  "req_method rq = str ''POST'' \<Longrightarrow>
   fetch pf w rq e =
     (case post_try pf w rq e of
        Inr (resp, evs) \<Rightarrow> Inr \<lparr> response = resp, events = BodyRead # evs \<rparr>
      | Inl error \<Rightarrow>
          Inr \<lparr> response = \<lparr> status = 500, headers = jsonHeaders,
                              body_json = Some (errors_body msg_processing_failed) \<rparr>,
                events = [BodyRead, ConsoleError [LogText msg_log_failed, LogExn error]] \<rparr>)"
  by (simp add: fetch_def method_literals)

lemma get_prop_variables:
  "get_prop pf b k = Inr v \<Longrightarrow> \<exists>vs. get_prop pf b k' = Inr vs"
  by (cases b) (simp_all add: get_prop_def)

lemma post_try_falsy:
  "req_json rq = Inr b \<Longrightarrow> get_prop pf b (str ''query'') = Inr q \<Longrightarrow> \<not> truthy q \<Longrightarrow>
   post_try pf w rq e =
     Inr (\<lparr> status = 400, headers = jsonHeaders,
             body_json = Some (errors_body msg_invalid_request) \<rparr>, [])"
  by (simp add: post_try_def)

lemma post_try_query:
  "req_json rq = Inr b \<Longrightarrow> get_prop pf b (str ''query'') = Inr (JStr q) \<Longrightarrow> q \<noteq> [] \<Longrightarrow>
   get_prop pf b (str ''variables'') = Inr vs \<Longrightarrow>
   post_try pf w rq e =
     (case (case classify (toLowerCase pf q) of
              StatusQuery \<Rightarrow> Inr (status_data, [])
            | SendMessage \<Rightarrow> sendMessage pf w e (if truthy vs then vs else JObj [])
            | Unsupported \<Rightarrow> Inr (errors_body msg_unsupported, []))
      of
        Inl err \<Rightarrow> Inl err
      | Inr (result, evs) \<Rightarrow>
          Inr (\<lparr> status = 200, headers = jsonHeaders, body_json = Some result \<rparr>, evs))"
  by (simp add: post_try_def call_toLowerCase_def)

lemma fetch_query:
  assumes "req_method rq = str ''POST''"
    and "req_json rq = Inr b"
    and "get_prop pf b (str ''query'') = Inr (JStr q)"
    and "q \<noteq> []"
    and "get_prop pf b (str ''variables'') = Inr vs"
  shows "fetch pf w rq e =
     (case (case classify (toLowerCase pf q) of
              StatusQuery \<Rightarrow> Inr (status_data, [])
            | SendMessage \<Rightarrow> sendMessage pf w e (if truthy vs then vs else JObj [])
            | Unsupported \<Rightarrow> Inr (errors_body msg_unsupported, []))
      of
        Inl error \<Rightarrow>
          Inr \<lparr> response = \<lparr> status = 500, headers = jsonHeaders,
                              body_json = Some (errors_body msg_processing_failed) \<rparr>,
                events = [BodyRead, ConsoleError [LogText msg_log_failed, LogExn error]] \<rparr>
      | Inr (result, evs) \<Rightarrow>
          Inr \<lparr> response = \<lparr> status = 200, headers = jsonHeaders, body_json = Some result \<rparr>,
                events = BodyRead # evs \<rparr>)"
  by (simp add: fetch_POST [OF assms(1)] post_try_query [OF assms(2-5)]
           split: sum.split prod.split)

lemma classify_StatusQuery:
  "str_includes d (str ''query'') \<Longrightarrow> str_includes d (str ''status'') \<Longrightarrow>
   classify d = StatusQuery"
  by (simp add: classify_def)

lemma classify_Unsupported:
  "\<not> (str_includes d (str ''query'') \<and> str_includes d (str ''status'')) \<Longrightarrow>
   \<not> (str_includes d (str ''mutation'') \<and> str_includes d (str ''sendmessage'')) \<Longrightarrow>
   classify d = Unsupported"
  by (simp add: classify_def)

lemma fetch_sendMessage:
  assumes "req_method rq = str ''POST''"
    and "req_json rq = Inr b"
    and "get_prop pf b (str ''query'') = Inr (JStr q)"
    and "q \<noteq> []"
    and "classify (toLowerCase pf q) = SendMessage"
    and "get_prop pf b (str ''variables'') = Inr vs"
  shows "fetch pf w rq e =
     (case sendMessage pf w e (if truthy vs then vs else JObj []) of
        Inl error \<Rightarrow>
          Inr \<lparr> response = \<lparr> status = 500, headers = jsonHeaders,
                              body_json = Some (errors_body msg_processing_failed) \<rparr>,
                events = [BodyRead, ConsoleError [LogText msg_log_failed, LogExn error]] \<rparr>
      | Inr (result, evs) \<Rightarrow>
          Inr \<lparr> response = \<lparr> status = 200, headers = jsonHeaders, body_json = Some result \<rparr>,
                events = BodyRead # evs \<rparr>)"
  by (simp add: fetch_query [OF assms(1-4) assms(6)] assms(5))

lemma sendMessage_input_fault:
  "get_prop pf vars (str ''input'') = Inl err \<Longrightarrow> sendMessage pf w e vars = Inl err"
  by (simp add: sendMessage_def)

lemma sendMessage_not_string:
  assumes "get_prop pf vars (str ''input'') = Inr inp"
    and "truthy inp"
    and "\<forall>s. inp \<noteq> JStr s"
  shows "sendMessage pf w e vars = Inl (typeError pf (NotAFunction inp (str ''trim'')))"
  using assms by (cases inp) (simp_all add: sendMessage_def)

lemma sendMessage_invalid:
  assumes "get_prop pf vars (str ''input'') = Inr inp"
    and "\<not> truthy inp \<or> (\<exists>s. inp = JStr s \<and> trim s = [])"
  shows "sendMessage pf w e vars =
           Inr (sendMessage_data
                  (envelope (JStr []) (randomUUID w) (toISOString w) (JStr msg_input_required)),
                [])"
  using assms by (auto simp: sendMessage_def)

lemma sendMessage_valid:
  assumes "get_prop pf vars (str ''input'') = Inr (JStr s)"
    and "trim s \<noteq> []"
  shows "sendMessage pf w e vars =
     (case sendMessage_try pf w e s of
        Inr (envl, evs) \<Rightarrow> Inr (sendMessage_data envl, UpstreamCall (upstream_call e s) # evs)
      | Inl error \<Rightarrow>
          Inr (sendMessage_data (fst (sendMessage_catch w error)),
               UpstreamCall (upstream_call e s) # snd (sendMessage_catch w error)))"
proof -
  have "s \<noteq> []" using assms(2) by (auto simp: trim_def)
  with assms show ?thesis by (simp add: sendMessage_def)
qed

lemma sendMessage_returns:
  assumes "get_prop pf vars (str ''input'') = Inr inp"
    and "truthy inp \<longrightarrow> (\<exists>s. inp = JStr s)"
  shows "\<exists>r evs. sendMessage pf w e vars = Inr (r, evs)"
proof (cases "truthy inp")
  case False
  then show ?thesis using sendMessage_invalid [OF assms(1)] by blast
next
  case True
  with assms(2) obtain s where s: "inp = JStr s" by blast
  show ?thesis
  proof (cases "trim s = []")
    case True
    with s show ?thesis using sendMessage_invalid [OF assms(1)] by blast
  next
    case False
    from assms(1) s have "get_prop pf vars (str ''input'') = Inr (JStr s)" by simp
    from sendMessage_valid [OF this False] show ?thesis
      by (cases "sendMessage_try pf w e s") auto
  qed
qed

lemma sendMessage_rejected:
  assumes "get_prop pf vars (str ''input'') = Inr (JStr s)"
    and "trim s \<noteq> []"
    and "upstream w (upstream_call e s) = Inr r"
    and "\<not> resp_ok r"
    and "resp_text r = Inr t"
  shows "sendMessage pf w e vars =
           Inr (sendMessage_data
                  (envelope (JStr []) (randomUUID w) (toISOString w)
                     (JStr (msg_openai_error @ show_nat (resp_status r)))),
                [UpstreamCall (upstream_call e s),
                 ConsoleError
                   [LogText (msg_openai_error @ show_nat (resp_status r) @ str '' '' @ t
                             @ str '' [object Object]'')]])"
  using assms(3-5) by (simp add: sendMessage_valid [OF assms(1,2)] sendMessage_try_def)

lemma sendMessage_caught:
  assumes "get_prop pf vars (str ''input'') = Inr (JStr s)"
    and "trim s \<noteq> []"
    and "sendMessage_try pf w e s = Inl err"
  shows "sendMessage pf w e vars =
           Inr (sendMessage_data
                  (envelope (JStr []) (randomUUID w) (toISOString w)
                     (JStr (case err of ErrorInstance m \<Rightarrow> m | NonError \<Rightarrow> msg_processing_failed))),
                [UpstreamCall (upstream_call e s),
                 ConsoleError [LogText msg_log_failed, LogExn err]])"
  using assms(3) by (simp add: sendMessage_valid [OF assms(1,2)] sendMessage_catch_def)

lemma sendMessage_success:
  assumes "get_prop pf vars (str ''input'') = Inr (JStr s)"
    and "trim s \<noteq> []"
    and "upstream w (upstream_call e s) = Inr r"
    and "resp_ok r"
    and "resp_json r = Inr d"
    and "first_choice_content pf d = Inr content"
  shows "sendMessage pf w e vars =
           Inr (sendMessage_data (envelope content (randomUUID w) (toISOString w) JNull),
                [UpstreamCall (upstream_call e s)])"
  using assms(3-6) by (simp add: sendMessage_valid [OF assms(1,2)] sendMessage_try_def)

lemma sendMessage_try_success:
  assumes "sendMessage_try pf w e s = Inr (envl, evs)"
  shows "(\<exists>code. envl = envelope (JStr []) (randomUUID w) (toISOString w)
                            (JStr (msg_openai_error @ show_nat code)))
         \<or> (\<exists>r d content. upstream w (upstream_call e s) = Inr r \<and> resp_ok r
                \<and> resp_json r = Inr d \<and> first_choice_content pf d = Inr content
                \<and> envl = envelope content (randomUUID w) (toISOString w) JNull)"
proof (cases "upstream w (upstream_call e s)")
  case (Inl err)
  with assms show ?thesis by (simp add: sendMessage_try_def)
next
  case (Inr r)
  show ?thesis
  proof (cases "resp_ok r")
    case False
    with Inr assms show ?thesis
      by (cases "resp_text r") (auto simp: sendMessage_try_def)
  next
    case True
    show ?thesis
    proof (cases "resp_json r")
      case (Inl err)
      with Inr True assms show ?thesis by (simp add: sendMessage_try_def)
    next
      case d: (Inr d)
      show ?thesis
      proof (cases "first_choice_content pf d")
        case (Inl err)
        with Inr True d assms show ?thesis by (simp add: sendMessage_try_def)
      next
        case c: (Inr content)
        with Inr True d assms have "envl = envelope content (randomUUID w) (toISOString w) JNull"
          by (simp add: sendMessage_try_def)
        with Inr True d c show ?thesis by blast
      qed
    qed
  qed
qed

lemma sendMessage_try_no_call:
  assumes "sendMessage_try pf w e s = Inr (envl, evs)"
  shows "filter is_upstream_call evs = []"
proof (cases "upstream w (upstream_call e s)")
  case (Inl err)
  with assms show ?thesis by (simp add: sendMessage_try_def)
next
  case (Inr r)
  show ?thesis
  proof (cases "resp_ok r")
    case True
    with Inr assms show ?thesis
      by (cases "resp_json r"; cases "first_choice_content pf (projr (resp_json r))")
         (auto simp: sendMessage_try_def)
  next
    case False
    with Inr assms show ?thesis
      by (cases "resp_text r") (auto simp: sendMessage_try_def)
  qed
qed

lemma sendMessage_catch_no_call:
  "filter is_upstream_call (snd (sendMessage_catch w error)) = []"
  by (simp add: sendMessage_catch_def)

lemma first_choice_content_no_choices:
  assumes "get_prop pf d (str ''choices'') = Inr (JArr [])"
  shows "first_choice_content pf d = Inl (typeError pf (ReadOfNullish JUndefined (str ''message'')))"
  using assms by (simp add: first_choice_content_def index0_def get_prop_def)

section \<open>The scenarios, evaluated\<close>

lemma post_request_sel:
  "req_method (post_request b) = str ''POST''" "req_json (post_request b) = Inr b"
  by (simp_all add: post_request_def)

lemma graphql_body_sel:
  "get_prop pf (graphql_body q inp) (str ''query'') = Inr q"
  "get_prop pf (graphql_body q inp) (str ''variables'') = Inr (JObj [(str ''input'', inp)])"
  "get_prop pf (JObj [(str ''input'', inp)]) (str ''input'') = Inr inp"
  by (simp_all add: graphql_body_def get_prop_def str_def)

lemma input_examples:
  "get_prop pf (if truthy (JObj [(str ''input'', inp)]) then JObj [(str ''input'', inp)] else JObj [])
     (str ''input'') = Inr inp"
  by (simp add: graphql_body_sel)

lemma example_world_sel:
  "upstream (example_world answer) c = answer"
  "randomUUID (example_world answer) = str ''3b241101-e2bb-4255-8caf-4136c566a962''"
  "toISOString (example_world answer) = str ''2024-05-01T12:00:00.000Z''"
  by (simp_all add: example_world_def)

lemma completion_sel:
  "resp_ok (completion cs)"
  "resp_json (completion cs) = Inr (JObj [(str ''choices'', JArr cs)])"
  by (simp_all add: completion_def resp_ok_def)

lemma first_choice_content_choice:
  "first_choice_content pf (JObj [(str ''choices'', JArr (choice t # cs))]) = Inr (JStr t)"
  by (simp add: first_choice_content_def get_prop_def index0_def choice_def str_def)

lemma classify_examples:
  "classify (toLowerCase example_platform (str ''mutation sendMessage'')) = SendMessage"
  "classify (toLowerCase example_platform (str ''mutation { sendMessage(input: $input) }''))
     = SendMessage"
  by (simp_all add: classify_def example_platform_def ascii_lower_def str_def)

lemma str_nonempty:
  "str ''mutation sendMessage'' \<noteq> []"
  "str ''mutation { sendMessage(input: $input) }'' \<noteq> []"
  by (simp_all add: str_def)

lemma trim_examples:
  "trim (str ''hello'') \<noteq> []"
  by (simp add: trim_def isWhiteSpace_def str_def)

lemma show_nat_examples: "show_nat 503 = str ''503''" "show_nat 500 = str ''500''"
  by (simp_all add: show_nat.simps str_def)

section \<open>The envelope invariant\<close>

text \<open>
  Claim C1. Every envelope the sendMessage block builds has the shape
  \<^verbatim>\<open>{ result, requestId, timestamp, error }\<close>, and at most one of the two conditions
  holds of it: when \<^verbatim>\<open>error\<close> is present (not \<^verbatim>\<open>null\<close>), \<^verbatim>\<open>result\<close> is the empty
  string. When \<^verbatim>\<open>error\<close> is \<^verbatim>\<open>null\<close>, the input was a valid string, the upstream
  answered with a 2xx status and a JSON body, and \<^verbatim>\<open>result\<close> is the first choice's
  message content exactly as the upstream sent it. So exactly one of the two conditions
  holds if and only if at least one does; none holds when that content is the empty
  string (or not a string), as the evaluation after the theorem shows.
\<close>

theorem envelope_invariant:
  assumes "sendMessage pf w e vars = Inr (r, evs)"
  shows "\<exists>res err.
           r = sendMessage_data (envelope res (randomUUID w) (toISOString w) err)
           \<and> \<not> (nonempty_string res \<and> error_present err)
           \<and> (error_present err \<longrightarrow> res = JStr [])
           \<and> (\<not> error_present err \<longrightarrow>
                (\<exists>s resp d. get_prop pf vars (str ''input'') = Inr (JStr s) \<and> trim s \<noteq> []
                   \<and> upstream w (upstream_call e s) = Inr resp \<and> resp_ok resp
                   \<and> resp_json resp = Inr d \<and> first_choice_content pf d = Inr res))
           \<and> ((nonempty_string res \<noteq> error_present err)
                \<longleftrightarrow> (error_present err \<or> nonempty_string res))"
proof -
  let ?P = "\<lambda>res err.
           r = sendMessage_data (envelope res (randomUUID w) (toISOString w) err)
           \<and> \<not> (nonempty_string res \<and> error_present err)
           \<and> (error_present err \<longrightarrow> res = JStr [])
           \<and> (\<not> error_present err \<longrightarrow>
                (\<exists>s resp d. get_prop pf vars (str ''input'') = Inr (JStr s) \<and> trim s \<noteq> []
                   \<and> upstream w (upstream_call e s) = Inr resp \<and> resp_ok resp
                   \<and> resp_json resp = Inr d \<and> first_choice_content pf d = Inr res))
           \<and> ((nonempty_string res \<noteq> error_present err)
                \<longleftrightarrow> (error_present err \<or> nonempty_string res))"
  have failure: "?P (JStr []) (JStr m)"
    if "r = sendMessage_data (envelope (JStr []) (randomUUID w) (toISOString w) (JStr m))" for m
    using that by (simp add: nonempty_string_def error_present_def)
  obtain inp where inp: "get_prop pf vars (str ''input'') = Inr inp"
  proof (cases "get_prop pf vars (str ''input'')")
    case (Inl err)
    from sendMessage_input_fault [OF this] assms show ?thesis by simp
  next
    case (Inr inp)
    with that show ?thesis .
  qed
  show ?thesis
  proof (cases "\<not> truthy inp \<or> (\<exists>s. inp = JStr s \<and> trim s = [])")
    case True
    from sendMessage_invalid [OF inp True] assms
    have "r = sendMessage_data
                (envelope (JStr []) (randomUUID w) (toISOString w) (JStr msg_input_required))"
      by simp
    from failure [OF this] show ?thesis by blast
  next
    case False
    then have t: "truthy inp" and nt: "\<forall>s. inp = JStr s \<longrightarrow> trim s \<noteq> []" by auto
    obtain s where s: "inp = JStr s"
    proof (cases "\<forall>s. inp \<noteq> JStr s")
      case True
      from sendMessage_not_string [OF inp t True] assms show ?thesis by simp
    next
      case False
      with that show ?thesis by blast
    qed
    with nt have valid: "trim s \<noteq> []" by simp
    from inp s have input: "get_prop pf vars (str ''input'') = Inr (JStr s)" by simp
    show ?thesis
    proof (cases "sendMessage_try pf w e s")
      case (Inl err)
      from sendMessage_caught [OF input valid Inl] assms
      have "r = sendMessage_data
                  (envelope (JStr []) (randomUUID w) (toISOString w)
                     (JStr (case err of ErrorInstance m \<Rightarrow> m | NonError \<Rightarrow> msg_processing_failed)))"
        by simp
      from failure [OF this] show ?thesis by blast
    next
      case (Inr p)
      obtain envl evs' where p: "p = (envl, evs')" by (cases p)
      with Inr sendMessage_valid [OF input valid] assms
      have r: "r = sendMessage_data envl" by simp
      from Inr p have "sendMessage_try pf w e s = Inr (envl, evs')" by simp
      from sendMessage_try_success [OF this]
      consider (rejected) code where
          "envl = envelope (JStr []) (randomUUID w) (toISOString w)
                    (JStr (msg_openai_error @ show_nat code))"
        | (success) resp d content where
          "upstream w (upstream_call e s) = Inr resp" "resp_ok resp"
          "resp_json resp = Inr d" "first_choice_content pf d = Inr content"
          "envl = envelope content (randomUUID w) (toISOString w) JNull"
        by blast
      then show ?thesis
      proof cases
        case rejected
        with r have "r = sendMessage_data
                           (envelope (JStr []) (randomUUID w) (toISOString w)
                              (JStr (msg_openai_error @ show_nat code)))"
          by simp
        from failure [OF this] show ?thesis by blast
      next
        case success
        from r success(5)
        have a: "r = sendMessage_data (envelope content (randomUUID w) (toISOString w) JNull)"
          by simp
        have b: "\<not> error_present JNull"
          by (simp add: error_present_def)
        from input valid success(1-4)
        have c: "\<exists>s resp d. get_prop pf vars (str ''input'') = Inr (JStr s) \<and> trim s \<noteq> []
                   \<and> upstream w (upstream_call e s) = Inr resp \<and> resp_ok resp
                   \<and> resp_json resp = Inr d \<and> first_choice_content pf d = Inr content"
          by blast
        from a b c have "?P content JNull"
          by simp
        then show ?thesis by blast
      qed
    qed
  qed
qed

theorem envelope_invariant_witness:
  "sendMessage example_platform (example_world (Inr (completion [choice (str ''hi there'')])))
     example_env (JObj [(str ''input'', JStr (str ''hello''))]) =
     Inr (sendMessage_data
            (envelope (JStr (str ''hi there'')) (str ''3b241101-e2bb-4255-8caf-4136c566a962'')
               (str ''2024-05-01T12:00:00.000Z'') JNull),
          [UpstreamCall (upstream_call example_env (str ''hello''))])
   \<and> (\<exists>res err.
         sendMessage_data
           (envelope (JStr (str ''hi there'')) (str ''3b241101-e2bb-4255-8caf-4136c566a962'')
              (str ''2024-05-01T12:00:00.000Z'') JNull)
           = sendMessage_data
               (envelope res (str ''3b241101-e2bb-4255-8caf-4136c566a962'')
                  (str ''2024-05-01T12:00:00.000Z'') err)
         \<and> \<not> (nonempty_string res \<and> error_present err)
         \<and> (error_present err \<longrightarrow> res = JStr [])
         \<and> ((nonempty_string res \<noteq> error_present err)
              \<longleftrightarrow> (error_present err \<or> nonempty_string res)))"
proof -
  let ?w = "example_world (Inr (completion [choice (str ''hi there'')]))"
  have run: "sendMessage example_platform ?w example_env
               (JObj [(str ''input'', JStr (str ''hello''))]) =
     Inr (sendMessage_data
            (envelope (JStr (str ''hi there'')) (str ''3b241101-e2bb-4255-8caf-4136c566a962'')
               (str ''2024-05-01T12:00:00.000Z'') JNull),
          [UpstreamCall (upstream_call example_env (str ''hello''))])"
    using sendMessage_success [where pf = example_platform and e = example_env,
            OF graphql_body_sel(3) trim_examples example_world_sel(1)
            completion_sel first_choice_content_choice]
    by (simp only: example_world_sel)
  from envelope_invariant [OF run] run show ?thesis
    by (simp only: example_world_sel) blast
qed

text \<open>
  A 2xx upstream response whose first choice has the empty string as content: the
  envelope has \<^verbatim>\<open>result\<close> equal to the empty string and \<^verbatim>\<open>error\<close> equal to
  \<^verbatim>\<open>null\<close>, so neither condition holds.
\<close>

theorem empty_content_counterexample:
  "fetch example_platform (example_world (Inr (completion [choice []])))
     (post_request (graphql_body (JStr (str ''mutation sendMessage'')) (JStr (str ''hello''))))
     example_env =
     Inr \<lparr> response =
             \<lparr> status = 200, headers = jsonHeaders,
               body_json =
                 Some (sendMessage_data
                         (envelope (JStr []) (str ''3b241101-e2bb-4255-8caf-4136c566a962'')
                            (str ''2024-05-01T12:00:00.000Z'') JNull)) \<rparr>,
           events = [BodyRead, UpstreamCall (upstream_call example_env (str ''hello''))] \<rparr>
   \<and> \<not> nonempty_string (JStr [])
   \<and> \<not> error_present JNull"
proof -
  have "sendMessage example_platform (example_world (Inr (completion [choice []]))) example_env
          (JObj [(str ''input'', JStr (str ''hello''))]) =
     Inr (sendMessage_data
            (envelope (JStr []) (str ''3b241101-e2bb-4255-8caf-4136c566a962'')
               (str ''2024-05-01T12:00:00.000Z'') JNull),
          [UpstreamCall (upstream_call example_env (str ''hello''))])"
    using sendMessage_success [where pf = example_platform and e = example_env,
            OF graphql_body_sel(3) trim_examples example_world_sel(1)
            completion_sel first_choice_content_choice]
    by (simp only: example_world_sel)
  then show ?thesis
    by (simp add: fetch_sendMessage [OF post_request_sel graphql_body_sel(1) str_nonempty(1)
            classify_examples(1) graphql_body_sel(2)]
          nonempty_string_def error_present_def)
qed

section \<open>Classification\<close>

text \<open>
  Claim C2. A descriptor that, lower-cased, contains both \<^verbatim>\<open>query\<close> and \<^verbatim>\<open>status\<close>
  is classified \<open>StatusQuery\<close>, whatever else it contains (\<^verbatim>\<open>mutation\<close> and
  \<^verbatim>\<open>sendmessage\<close> included): that rule is tested first. The answer is then the status
  data with HTTP status 200. A non-empty descriptor that matches neither rule is
  classified \<open>Unsupported\<close> and answered with the errors array carrying the
  unsupported-query message, with HTTP status 200. The second half is stated for
  non-empty descriptors only: the empty descriptor matches neither rule as well, but
  line 82 answers it with status 400 before any classification. The platform fact used
  is that lower-casing the empty string gives the empty string.
\<close>

theorem classification_first_match:
  assumes "req_method rq = str ''POST''"
    and "req_json rq = Inr b"
    and "get_prop pf b (str ''query'') = Inr (JStr q)"
    and "toLowerCase pf [] = []"
  shows "(str_includes (toLowerCase pf q) (str ''query'')
            \<and> str_includes (toLowerCase pf q) (str ''status'') \<longrightarrow>
          classify (toLowerCase pf q) = StatusQuery
          \<and> fetch pf w rq e =
              Inr \<lparr> response =
                      \<lparr> status = 200, headers = jsonHeaders,
                        body_json =
                          Some (JObj [(str ''data'',
                                       JObj [(str ''status'', JStr msg_running)])]) \<rparr>,
                    events = [BodyRead] \<rparr>)
       \<and> (q \<noteq> []
            \<and> \<not> (str_includes (toLowerCase pf q) (str ''query'')
                   \<and> str_includes (toLowerCase pf q) (str ''status''))
            \<and> \<not> (str_includes (toLowerCase pf q) (str ''mutation'')
                   \<and> str_includes (toLowerCase pf q) (str ''sendmessage'')) \<longrightarrow>
          classify (toLowerCase pf q) = Unsupported
          \<and> fetch pf w rq e =
              Inr \<lparr> response =
                      \<lparr> status = 200, headers = jsonHeaders,
                        body_json =
                          Some (JObj [(str ''errors'',
                                       JArr [JObj [(str ''message'', JStr msg_unsupported)]])]) \<rparr>,
                    events = [BodyRead] \<rparr>)"
proof -
  obtain vs where vs: "get_prop pf b (str ''variables'') = Inr vs"
    using get_prop_variables [OF assms(3)] by blast
  have first: "classify (toLowerCase pf q) = StatusQuery
      \<and> fetch pf w rq e =
          Inr \<lparr> response =
                  \<lparr> status = 200, headers = jsonHeaders,
                    body_json =
                      Some (JObj [(str ''data'', JObj [(str ''status'', JStr msg_running)])]) \<rparr>,
                events = [BodyRead] \<rparr>"
    if both: "str_includes (toLowerCase pf q) (str ''query'')
              \<and> str_includes (toLowerCase pf q) (str ''status'')"
  proof -
    have "q \<noteq> []"
    proof
      assume "q = []"
      with both assms(4) show False by (simp add: str_def)
    qed
    moreover have "classify (toLowerCase pf q) = StatusQuery"
      using both by (simp add: classify_StatusQuery)
    ultimately show ?thesis
      by (simp add: fetch_query [OF assms(1-3) _ vs] status_data_def)
  qed
  have second: "classify (toLowerCase pf q) = Unsupported
      \<and> fetch pf w rq e =
          Inr \<lparr> response =
                  \<lparr> status = 200, headers = jsonHeaders,
                    body_json =
                      Some (JObj [(str ''errors'',
                                   JArr [JObj [(str ''message'', JStr msg_unsupported)]])]) \<rparr>,
                events = [BodyRead] \<rparr>"
    if neither: "q \<noteq> []
            \<and> \<not> (str_includes (toLowerCase pf q) (str ''query'')
                   \<and> str_includes (toLowerCase pf q) (str ''status''))
            \<and> \<not> (str_includes (toLowerCase pf q) (str ''mutation'')
                   \<and> str_includes (toLowerCase pf q) (str ''sendmessage''))"
  proof -
    have "classify (toLowerCase pf q) = Unsupported"
      using neither by (simp add: classify_Unsupported)
    with neither show ?thesis
      by (simp add: fetch_query [OF assms(1-3) _ vs] errors_body_def)
  qed
  from first second show ?thesis by blast
qed

theorem classification_first_match_witness:
  "classify (toLowerCase example_platform (str ''mutation { sendMessage } query { status }''))
     = StatusQuery
   \<and> fetch example_platform (example_world (Inl NonError))
       (post_request (graphql_body (JStr (str ''mutation { sendMessage } query { status }''))
                        (JStr (str ''hello''))))
       example_env =
     Inr \<lparr> response =
             \<lparr> status = 200, headers = jsonHeaders,
               body_json =
                 Some (JObj [(str ''data'', JObj [(str ''status'', JStr msg_running)])]) \<rparr>,
           events = [BodyRead] \<rparr>
   \<and> classify (toLowerCase example_platform (str ''{ __typename }'')) = Unsupported
   \<and> fetch example_platform (example_world (Inl NonError))
       (post_request (graphql_body (JStr (str ''{ __typename }'')) (JStr (str ''hello''))))
       example_env =
     Inr \<lparr> response =
             \<lparr> status = 200, headers = jsonHeaders,
               body_json =
                 Some (JObj [(str ''errors'',
                              JArr [JObj [(str ''message'', JStr msg_unsupported)]])]) \<rparr>,
           events = [BodyRead] \<rparr>"
proof -
  have pf: "toLowerCase example_platform [] = []"
    by (simp add: example_platform_def)
  have both:
    "str_includes (toLowerCase example_platform (str ''mutation { sendMessage } query { status }''))
       (str ''query'')
     \<and> str_includes (toLowerCase example_platform (str ''mutation { sendMessage } query { status }''))
       (str ''status'')"
    by (simp add: example_platform_def ascii_lower_def str_def)
  have neither:
    "str ''{ __typename }'' \<noteq> []
     \<and> \<not> (str_includes (toLowerCase example_platform (str ''{ __typename }'')) (str ''query'')
          \<and> str_includes (toLowerCase example_platform (str ''{ __typename }'')) (str ''status''))
     \<and> \<not> (str_includes (toLowerCase example_platform (str ''{ __typename }'')) (str ''mutation'')
          \<and> str_includes (toLowerCase example_platform (str ''{ __typename }''))
               (str ''sendmessage''))"
    by (simp add: example_platform_def ascii_lower_def str_def)
  from both
    classification_first_match [OF post_request_sel graphql_body_sel(1) pf,
      where q = "str ''mutation { sendMessage } query { status }''"]
  have one: "classify (toLowerCase example_platform (str ''mutation { sendMessage } query { status }''))
     = StatusQuery
   \<and> fetch example_platform (example_world (Inl NonError))
       (post_request (graphql_body (JStr (str ''mutation { sendMessage } query { status }''))
                        (JStr (str ''hello''))))
       example_env =
     Inr \<lparr> response =
             \<lparr> status = 200, headers = jsonHeaders,
               body_json =
                 Some (JObj [(str ''data'', JObj [(str ''status'', JStr msg_running)])]) \<rparr>,
           events = [BodyRead] \<rparr>"
    by blast
  from neither
    classification_first_match [OF post_request_sel graphql_body_sel(1) pf,
      where q = "str ''{ __typename }''"]
  have two: "classify (toLowerCase example_platform (str ''{ __typename }'')) = Unsupported
   \<and> fetch example_platform (example_world (Inl NonError))
       (post_request (graphql_body (JStr (str ''{ __typename }'')) (JStr (str ''hello''))))
       example_env =
     Inr \<lparr> response =
             \<lparr> status = 200, headers = jsonHeaders,
               body_json =
                 Some (JObj [(str ''errors'',
                              JArr [JObj [(str ''message'', JStr msg_unsupported)]])]) \<rparr>,
           events = [BodyRead] \<rparr>"
    by blast
  from one two show ?thesis by blast
qed

text \<open>
  The empty descriptor: it matches neither rule and \<open>classify\<close> yields
  \<open>Unsupported\<close> on it, yet the answer to \<^verbatim>\<open>{ "query": "" }\<close> has status 400.
\<close>

theorem empty_descriptor_counterexample:
  "\<not> (str_includes (toLowerCase example_platform []) (str ''query'')
        \<and> str_includes (toLowerCase example_platform []) (str ''status''))
   \<and> \<not> (str_includes (toLowerCase example_platform []) (str ''mutation'')
        \<and> str_includes (toLowerCase example_platform []) (str ''sendmessage''))
   \<and> classify (toLowerCase example_platform []) = Unsupported
   \<and> fetch example_platform (example_world (Inl NonError))
       (post_request (JObj [(str ''query'', JStr [])])) example_env =
     Inr \<lparr> response =
             \<lparr> status = 400, headers = jsonHeaders,
               body_json =
                 Some (JObj [(str ''errors'',
                              JArr [JObj [(str ''message'', JStr msg_invalid_request)]])]) \<rparr>,
           events = [BodyRead] \<rparr>"
  by (simp add: example_platform_def classify_def str_def fetch_def post_request_def
        post_try_def get_prop_def errors_body_def)

section \<open>Input validation\<close>

text \<open>
  Claim C3. In a sendMessage invocation whose \<^verbatim>\<open>variables.input\<close> is absent, the
  empty string or a string of white space only, the envelope has \<^verbatim>\<open>error\<close> equal to
  the fixed input-required message and \<^verbatim>\<open>result\<close> equal to the empty string, and
  the only effect is the reading of the request body: no call to the upstream is made,
  whatever the upstream would have answered.
\<close>

theorem empty_input_rejected:
  assumes "req_method rq = str ''POST''"
    and "req_json rq = Inr b"
    and "get_prop pf b (str ''query'') = Inr (JStr q)"
    and "q \<noteq> []"
    and "classify (toLowerCase pf q) = SendMessage"
    and "get_prop pf b (str ''variables'') = Inr vs"
    and "get_prop pf (if truthy vs then vs else JObj []) (str ''input'') = Inr inp"
    and "inp = JUndefined \<or> (\<exists>s. inp = JStr s \<and> (\<forall>c\<in>set s. isWhiteSpace c))"
  shows "\<exists>out. fetch pf w rq e = Inr out
           \<and> response out =
               \<lparr> status = 200, headers = jsonHeaders,
                 body_json =
                   Some (sendMessage_data
                           (envelope (JStr []) (randomUUID w) (toISOString w)
                              (JStr msg_input_required))) \<rparr>
           \<and> events out = [BodyRead]
           \<and> filter is_upstream_call (events out) = []"
proof -
  from assms(8) have "\<not> truthy inp \<or> (\<exists>s. inp = JStr s \<and> trim s = [])"
    by (auto simp: trim_Nil_iff)
  from sendMessage_invalid [OF assms(7) this]
  show ?thesis
    by (simp add: fetch_sendMessage [OF assms(1-6)])
qed

theorem empty_input_rejected_witness:
  "(\<exists>out. fetch example_platform (example_world (Inr (completion [choice (str ''hi there'')])))
             (post_request (graphql_body (JStr (str ''mutation sendMessage'')) (JStr (str ''  ''))))
             example_env = Inr out
         \<and> response out =
             \<lparr> status = 200, headers = jsonHeaders,
               body_json =
                 Some (sendMessage_data
                         (envelope (JStr [])
                            (randomUUID (example_world (Inr (completion [choice (str ''hi there'')]))))
                            (toISOString (example_world (Inr (completion [choice (str ''hi there'')]))))
                            (JStr msg_input_required))) \<rparr>
         \<and> events out = [BodyRead]
         \<and> filter is_upstream_call (events out) = [])
   \<and> (\<exists>out. fetch example_platform (example_world (Inr (completion [choice (str ''hi there'')])))
             (post_request (JObj [(str ''query'', JStr (str ''mutation sendMessage''))]))
             example_env = Inr out
         \<and> response out =
             \<lparr> status = 200, headers = jsonHeaders,
               body_json =
                 Some (sendMessage_data
                         (envelope (JStr [])
                            (randomUUID (example_world (Inr (completion [choice (str ''hi there'')]))))
                            (toISOString (example_world (Inr (completion [choice (str ''hi there'')]))))
                            (JStr msg_input_required))) \<rparr>
         \<and> events out = [BodyRead]
         \<and> filter is_upstream_call (events out) = [])"
proof -
  have blank: "JStr (str ''  '') = JUndefined
               \<or> (\<exists>s. JStr (str ''  '') = JStr s \<and> (\<forall>c\<in>set s. isWhiteSpace c))"
    by (simp add: str_def isWhiteSpace_def)
  have vars: "get_prop example_platform
                (if truthy (JObj [(str ''input'', JStr (str ''  ''))])
                 then JObj [(str ''input'', JStr (str ''  ''))] else JObj [])
                (str ''input'') = Inr (JStr (str ''  ''))"
    by (simp add: graphql_body_sel)
  have q: "get_prop example_platform (JObj [(str ''query'', JStr (str ''mutation sendMessage''))])
             (str ''query'') = Inr (JStr (str ''mutation sendMessage''))"
    by (simp add: get_prop_def)
  have no_vars: "get_prop example_platform
                   (JObj [(str ''query'', JStr (str ''mutation sendMessage''))])
                   (str ''variables'') = Inr JUndefined"
    by (simp add: get_prop_def str_def)
  have absent: "get_prop example_platform (if truthy JUndefined then JUndefined else JObj [])
                  (str ''input'') = Inr JUndefined"
    by (simp add: get_prop_def)
  have none: "JUndefined = JUndefined
              \<or> (\<exists>s. JUndefined = JStr s \<and> (\<forall>c\<in>set s. isWhiteSpace c))"
    by simp
  from empty_input_rejected [OF post_request_sel graphql_body_sel(1) str_nonempty(1)
         classify_examples(1) graphql_body_sel(2) vars blank]
       empty_input_rejected [OF post_request_sel q str_nonempty(1) classify_examples(1)
         no_vars absent none]
  show ?thesis by blast
qed

section \<open>Upstream rejection\<close>

text \<open>
  Claim C4. In a sendMessage invocation with valid input where the upstream answers
  with a status outside 200 to 299 and the body of that answer is read successfully,
  the envelope's \<^verbatim>\<open>error\<close> is the fixed prefix followed by the decimal status code
  (so it contains the code), \<^verbatim>\<open>result\<close> is the empty string, and the HTTP status is
  200. The raw upstream body goes to \<^verbatim>\<open>console.error\<close> and nowhere else: the
  response is the same whatever that body is. When reading the body fails, the inner
  \<^verbatim>\<open>catch\<close> takes over and \<^verbatim>\<open>error\<close> is the exception's message instead, as
  the evaluation after the theorem shows.
\<close>

theorem upstream_rejection_envelope:
  assumes "req_method rq = str ''POST''"
    and "req_json rq = Inr b"
    and "get_prop pf b (str ''query'') = Inr (JStr q)"
    and "q \<noteq> []"
    and "classify (toLowerCase pf q) = SendMessage"
    and "get_prop pf b (str ''variables'') = Inr vs"
    and "get_prop pf (if truthy vs then vs else JObj []) (str ''input'') = Inr (JStr s)"
    and "trim s \<noteq> []"
    and "upstream w (upstream_call e s) = Inr r"
    and "\<not> resp_ok r"
    and "resp_text r = Inr t"
  shows "fetch pf w rq e =
           Inr \<lparr> response =
                   \<lparr> status = 200, headers = jsonHeaders,
                     body_json =
                       Some (sendMessage_data
                               (envelope (JStr []) (randomUUID w) (toISOString w)
                                  (JStr (msg_openai_error @ show_nat (resp_status r))))) \<rparr>,
                 events =
                   [BodyRead, UpstreamCall (upstream_call e s),
                    ConsoleError
                      [LogText (msg_openai_error @ show_nat (resp_status r) @ str '' '' @ t
                                @ str '' [object Object]'')]] \<rparr>
         \<and> str_includes (msg_openai_error @ show_nat (resp_status r)) (show_nat (resp_status r))
         \<and> (\<forall>t'. map_sum id response
                    (fetch pf
                       (w\<lparr> upstream :=
                            (upstream w) (upstream_call e s := Inr (r\<lparr> resp_text := Inr t' \<rparr>)) \<rparr>)
                       rq e)
                  = map_sum id response (fetch pf w rq e))"
proof -
  have direct: "fetch pf w rq e =
           Inr \<lparr> response =
                   \<lparr> status = 200, headers = jsonHeaders,
                     body_json =
                       Some (sendMessage_data
                               (envelope (JStr []) (randomUUID w) (toISOString w)
                                  (JStr (msg_openai_error @ show_nat (resp_status r))))) \<rparr>,
                 events =
                   [BodyRead, UpstreamCall (upstream_call e s),
                    ConsoleError
                      [LogText (msg_openai_error @ show_nat (resp_status r) @ str '' '' @ t
                                @ str '' [object Object]'')]] \<rparr>"
    by (simp add: fetch_sendMessage [OF assms(1-6)] sendMessage_rejected [OF assms(7-11)])
  have indep: "map_sum id response
                 (fetch pf
                    (w\<lparr> upstream :=
                         (upstream w) (upstream_call e s := Inr (r\<lparr> resp_text := Inr t' \<rparr>)) \<rparr>)
                    rq e)
               = map_sum id response (fetch pf w rq e)" for t'
  proof -
    let ?w = "w\<lparr> upstream :=
                   (upstream w) (upstream_call e s := Inr (r\<lparr> resp_text := Inr t' \<rparr>)) \<rparr>"
    have up: "upstream ?w (upstream_call e s) = Inr (r\<lparr> resp_text := Inr t' \<rparr>)" by simp
    have nok: "\<not> resp_ok (r\<lparr> resp_text := Inr t' \<rparr>)"
      using assms(10) by (simp add: resp_ok_def)
    have body_t: "resp_text (r\<lparr> resp_text := Inr t' \<rparr>) = Inr t'" by simp
    have "fetch pf ?w rq e =
           Inr \<lparr> response =
                   \<lparr> status = 200, headers = jsonHeaders,
                     body_json =
                       Some (sendMessage_data
                               (envelope (JStr []) (randomUUID w) (toISOString w)
                                  (JStr (msg_openai_error @ show_nat (resp_status r))))) \<rparr>,
                 events =
                   [BodyRead, UpstreamCall (upstream_call e s),
                    ConsoleError
                      [LogText (msg_openai_error @ show_nat (resp_status r) @ str '' '' @ t'
                                @ str '' [object Object]'')]] \<rparr>"
      using sendMessage_rejected [OF assms(7,8) up nok body_t]
      by (simp add: fetch_sendMessage [OF assms(1-6)])
    then show ?thesis
      by (simp add: direct)
  qed
  from direct indep show ?thesis
    by (simp add: str_includes_append)
qed

theorem upstream_rejection_envelope_witness:
  "fetch example_platform (example_world (Inr (rejection 503 (Inr (str ''upstream secret'')))))
     (post_request (graphql_body (JStr (str ''mutation sendMessage'')) (JStr (str ''hello''))))
     example_env =
     Inr \<lparr> response =
             \<lparr> status = 200, headers = jsonHeaders,
               body_json =
                 Some (sendMessage_data
                         (envelope (JStr []) (str ''3b241101-e2bb-4255-8caf-4136c566a962'')
                            (str ''2024-05-01T12:00:00.000Z'')
                            (JStr (msg_openai_error @ str ''503'')))) \<rparr>,
           events =
             [BodyRead, UpstreamCall (upstream_call example_env (str ''hello'')),
              ConsoleError
                [LogText (msg_openai_error @ str ''503'' @ str '' '' @ str ''upstream secret''
                          @ str '' [object Object]'')]] \<rparr>
   \<and> str_includes (msg_openai_error @ str ''503'') (str ''503'')"
proof -
  have nok: "\<not> resp_ok (rejection 503 (Inr (str ''upstream secret'')))"
    by (simp add: resp_ok_def rejection_def)
  have raw: "resp_text (rejection 503 (Inr (str ''upstream secret''))) = Inr (str ''upstream secret'')"
    by (simp add: rejection_def)
  have code: "resp_status (rejection 503 (Inr (str ''upstream secret''))) = 503"
    by (simp add: rejection_def)
  from upstream_rejection_envelope [OF post_request_sel graphql_body_sel(1) str_nonempty(1)
         classify_examples(1) graphql_body_sel(2) input_examples trim_examples
         example_world_sel(1) nok raw,
         where e = example_env]
  show ?thesis
    by (simp only: code show_nat_examples example_world_sel)
qed

text \<open>
  The upstream answers with status 500 and \<^verbatim>\<open>text()\<close> rejects: \<^verbatim>\<open>error\<close> is the
  exception's message, which does not contain \<^verbatim>\<open>500\<close>.
\<close>

theorem body_read_failure_counterexample:
  "\<not> resp_ok (rejection 500 (Inl (ErrorInstance (str ''socket closed''))))
   \<and> fetch example_platform
       (example_world (Inr (rejection 500 (Inl (ErrorInstance (str ''socket closed''))))))
       (post_request (graphql_body (JStr (str ''mutation sendMessage'')) (JStr (str ''hello''))))
       example_env =
     Inr \<lparr> response =
             \<lparr> status = 200, headers = jsonHeaders,
               body_json =
                 Some (sendMessage_data
                         (envelope (JStr []) (str ''3b241101-e2bb-4255-8caf-4136c566a962'')
                            (str ''2024-05-01T12:00:00.000Z'')
                            (JStr (str ''socket closed'')))) \<rparr>,
           events =
             [BodyRead, UpstreamCall (upstream_call example_env (str ''hello'')),
              ConsoleError [LogText msg_log_failed,
                            LogExn (ErrorInstance (str ''socket closed''))]] \<rparr>
   \<and> \<not> str_includes (str ''socket closed'') (show_nat 500)"
proof -
  have nok: "\<not> resp_ok (rejection 500 (Inl (ErrorInstance (str ''socket closed''))))"
    by (simp add: resp_ok_def rejection_def)
  have thrown: "sendMessage_try example_platform
                  (example_world (Inr (rejection 500 (Inl (ErrorInstance (str ''socket closed''))))))
                  example_env (str ''hello'') = Inl (ErrorInstance (str ''socket closed''))"
    by (simp add: sendMessage_try_def example_world_sel nok) (simp add: rejection_def)
  have absent: "\<not> str_includes (str ''socket closed'') (show_nat 500)"
    by (simp add: show_nat_examples) (simp add: str_def)
  from nok absent show ?thesis
    by (simp add: fetch_sendMessage [OF post_request_sel graphql_body_sel(1) str_nonempty(1)
            classify_examples(1) graphql_body_sel(2)]
          sendMessage_caught [OF graphql_body_sel(3) trim_examples thrown] example_world_sel)
qed

section \<open>The HTTP status of an accepted POST\<close>

text \<open>
  Claim C5. A \<^verbatim>\<open>POST\<close> whose body parses as JSON and whose \<^verbatim>\<open>query\<close> is a
  non-empty string is answered with HTTP status 200 for every inner outcome (status
  query, unsupported query, validation failure, upstream rejection, transport failure,
  success), provided that, when the operation is sendMessage, \<^verbatim>\<open>variables.input\<close> is
  falsy (absent included) or a string. A \<^verbatim>\<open>query\<close> that is present but the empty
  string is answered with 400; the evaluation after the theorem shows it, together
  with the answers to a \<^verbatim>\<open>query\<close> and an \<^verbatim>\<open>input\<close> that are numbers.
\<close>

theorem accepted_post_status:
  assumes "req_method rq = str ''POST''"
    and "req_json rq = Inr b"
    and "get_prop pf b (str ''query'') = Inr (JStr q)"
    and "q \<noteq> []"
    and "get_prop pf b (str ''variables'') = Inr vs"
    and "get_prop pf (if truthy vs then vs else JObj []) (str ''input'') = Inr inp"
    and "classify (toLowerCase pf q) = SendMessage \<longrightarrow> truthy inp \<longrightarrow> (\<exists>s. inp = JStr s)"
  shows "\<exists>out. fetch pf w rq e = Inr out \<and> status (response out) = 200"
proof (cases "classify (toLowerCase pf q)")
  case StatusQuery
  then show ?thesis by (simp add: fetch_query [OF assms(1-5)])
next
  case Unsupported
  then show ?thesis by (simp add: fetch_query [OF assms(1-5)])
next
  case SendMessage
  with assms(7) have "truthy inp \<longrightarrow> (\<exists>s. inp = JStr s)" by simp
  from sendMessage_returns [OF assms(6) this]
  obtain r evs where "sendMessage pf w e (if truthy vs then vs else JObj []) = Inr (r, evs)"
    by blast
  then show ?thesis
    by (simp add: fetch_sendMessage [OF assms(1-4) SendMessage assms(5)])
qed

theorem accepted_post_status_witness:
  "(\<exists>out. fetch example_platform (example_world (Inl NonError))
            (post_request (graphql_body (JStr (str ''mutation sendMessage'')) (JStr (str ''hello''))))
            example_env = Inr out
        \<and> status (response out) = 200)
   \<and> (\<exists>out. fetch example_platform (example_world (Inl NonError))
            (post_request (graphql_body (JStr (str ''mutation sendMessage'')) JNull))
            example_env = Inr out
        \<and> status (response out) = 200)"
proof -
  have s: "classify (toLowerCase example_platform (str ''mutation sendMessage'')) = SendMessage
             \<longrightarrow> truthy (JStr (str ''hello'')) \<longrightarrow> (\<exists>s. JStr (str ''hello'') = JStr s)"
    by simp
  have n: "classify (toLowerCase example_platform (str ''mutation sendMessage'')) = SendMessage
             \<longrightarrow> truthy JNull \<longrightarrow> (\<exists>s. JNull = JStr s)"
    by simp
  from accepted_post_status [OF post_request_sel graphql_body_sel(1) str_nonempty(1)
         graphql_body_sel(2) input_examples s]
       accepted_post_status [OF post_request_sel graphql_body_sel(1) str_nonempty(1)
         graphql_body_sel(2) input_examples n]
  show ?thesis by blast
qed

text \<open>
  Three bodies with a \<^verbatim>\<open>query\<close> field that are not answered with 200:
  \<^verbatim>\<open>{ "query": "" }\<close> (400), \<^verbatim>\<open>{ "query": 7 }\<close> (500, \<^verbatim>\<open>toLowerCase\<close> is not a
  function) and a sendMessage mutation with \<^verbatim>\<open>"input": 5\<close> (500, \<^verbatim>\<open>trim\<close> is not a
  function and line 112 stands outside the inner \<^verbatim>\<open>try\<close>).
\<close>

theorem present_query_counterexample:
  "get_prop example_platform (JObj [(str ''query'', JStr [])]) (str ''query'') = Inr (JStr [])
   \<and> fetch example_platform (example_world (Inl NonError))
       (post_request (JObj [(str ''query'', JStr [])])) example_env =
     Inr \<lparr> response =
             \<lparr> status = 400, headers = jsonHeaders,
               body_json = Some (errors_body msg_invalid_request) \<rparr>,
           events = [BodyRead] \<rparr>
   \<and> get_prop example_platform (JObj [(str ''query'', JNum 7)]) (str ''query'') = Inr (JNum 7)
   \<and> fetch example_platform (example_world (Inl NonError))
       (post_request (JObj [(str ''query'', JNum 7)])) example_env =
     Inr \<lparr> response =
             \<lparr> status = 500, headers = jsonHeaders,
               body_json = Some (errors_body msg_processing_failed) \<rparr>,
           events = [BodyRead,
                     ConsoleError [LogText msg_log_failed,
                                   LogExn (ErrorInstance (str ''is not a function''))]] \<rparr>
   \<and> fetch example_platform (example_world (Inl NonError))
       (post_request (graphql_body (JStr (str ''mutation sendMessage'')) (JNum 5))) example_env =
     Inr \<lparr> response =
             \<lparr> status = 500, headers = jsonHeaders,
               body_json = Some (errors_body msg_processing_failed) \<rparr>,
           events = [BodyRead,
                     ConsoleError [LogText msg_log_failed,
                                   LogExn (ErrorInstance (str ''is not a function''))]] \<rparr>"
proof -
  have empty: "fetch example_platform (example_world (Inl NonError))
       (post_request (JObj [(str ''query'', JStr [])])) example_env =
     Inr \<lparr> response =
             \<lparr> status = 400, headers = jsonHeaders,
               body_json = Some (errors_body msg_invalid_request) \<rparr>,
           events = [BodyRead] \<rparr>"
    by (simp add: fetch_POST post_request_sel post_try_def get_prop_def)
  have number: "fetch example_platform (example_world (Inl NonError))
       (post_request (JObj [(str ''query'', JNum 7)])) example_env =
     Inr \<lparr> response =
             \<lparr> status = 500, headers = jsonHeaders,
               body_json = Some (errors_body msg_processing_failed) \<rparr>,
           events = [BodyRead,
                     ConsoleError [LogText msg_log_failed,
                                   LogExn (ErrorInstance (str ''is not a function''))]] \<rparr>"
    by (simp add: fetch_POST post_request_sel post_try_def get_prop_def call_toLowerCase_def
          typeError_def example_platform_def)
  have "sendMessage example_platform (example_world (Inl NonError)) example_env
          (JObj [(str ''input'', JNum 5)]) = Inl (ErrorInstance (str ''is not a function''))"
    by (simp add: sendMessage_def graphql_body_sel typeError_def example_platform_def)
  then have input: "fetch example_platform (example_world (Inl NonError))
       (post_request (graphql_body (JStr (str ''mutation sendMessage'')) (JNum 5))) example_env =
     Inr \<lparr> response =
             \<lparr> status = 500, headers = jsonHeaders,
               body_json = Some (errors_body msg_processing_failed) \<rparr>,
           events = [BodyRead,
                     ConsoleError [LogText msg_log_failed,
                                   LogExn (ErrorInstance (str ''is not a function''))]] \<rparr>"
    by (simp add: fetch_sendMessage [OF post_request_sel graphql_body_sel(1) str_nonempty(1)
            classify_examples(1) graphql_body_sel(2)])
  from empty number input show ?thesis
    by (simp add: get_prop_def)
qed

section \<open>The upstream request\<close>

text \<open>
  Claim C6. In a sendMessage invocation whose input is a string that does not trim to
  the empty string, exactly one call to the upstream is made, and its body is built with
  the model \<^verbatim>\<open>gpt-3.5-turbo\<close>, a \<^verbatim>\<open>messages\<close> array of exactly one message with role
  \<^verbatim>\<open>user\<close> whose content is the input as received (not trimmed, not shortened, not
  altered), and \<^verbatim>\<open>max_tokens\<close> equal to 500.
\<close>

theorem upstream_request_verbatim:
  assumes "req_method rq = str ''POST''"
    and "req_json rq = Inr b"
    and "get_prop pf b (str ''query'') = Inr (JStr q)"
    and "q \<noteq> []"
    and "classify (toLowerCase pf q) = SendMessage"
    and "get_prop pf b (str ''variables'') = Inr vs"
    and "get_prop pf (if truthy vs then vs else JObj []) (str ''input'') = Inr (JStr s)"
    and "trim s \<noteq> []"
  shows "\<exists>out. fetch pf w rq e = Inr out
           \<and> filter is_upstream_call (events out) =
               [UpstreamCall
                  \<lparr> out_url = str ''https://api.openai.com/v1/chat/completions'',
                    out_method = str ''POST'',
                    out_headers =
                      [(str ''Content-Type'', str ''application/json''),
                       (str ''Authorization'', str ''Bearer '' @ OPENAI_API_KEY e)],
                    out_body =
                      JObj [(str ''model'', JStr (str ''gpt-3.5-turbo'')),
                            (str ''messages'',
                               JArr [JObj [(str ''role'', JStr (str ''user'')),
                                           (str ''content'', JStr s)]]),
                            (str ''max_tokens'', JNum 500)] \<rparr>]"
proof (cases "sendMessage_try pf w e s")
  case (Inl error)
  then show ?thesis
    by (simp add: fetch_sendMessage [OF assms(1-6)] sendMessage_valid [OF assms(7,8)]
          sendMessage_catch_no_call upstream_call_def openAIRequest_def)
next
  case (Inr p)
  obtain envl evs where p: "p = (envl, evs)" by (cases p)
  with Inr have "filter is_upstream_call evs = []"
    by (simp add: sendMessage_try_no_call)
  with Inr p show ?thesis
    by (simp add: fetch_sendMessage [OF assms(1-6)] sendMessage_valid [OF assms(7,8)]
          upstream_call_def openAIRequest_def)
qed

theorem upstream_request_verbatim_witness:
  "\<exists>out. fetch example_platform (example_world (Inr (completion [choice (str ''hi there'')])))
           (post_request (graphql_body (JStr (str ''mutation { sendMessage(input: $input) }''))
                            (JStr (str '' hello  ''))))
           example_env = Inr out
       \<and> filter is_upstream_call (events out) =
           [UpstreamCall
              \<lparr> out_url = str ''https://api.openai.com/v1/chat/completions'',
                out_method = str ''POST'',
                out_headers =
                  [(str ''Content-Type'', str ''application/json''),
                   (str ''Authorization'', str ''Bearer '' @ OPENAI_API_KEY example_env)],
                out_body =
                  JObj [(str ''model'', JStr (str ''gpt-3.5-turbo'')),
                        (str ''messages'',
                           JArr [JObj [(str ''role'', JStr (str ''user'')),
                                       (str ''content'', JStr (str '' hello  ''))]]),
                        (str ''max_tokens'', JNum 500)] \<rparr>]"
proof -
  have vars: "get_prop example_platform
                (if truthy (JObj [(str ''input'', JStr (str '' hello  ''))])
                 then JObj [(str ''input'', JStr (str '' hello  ''))] else JObj [])
                (str ''input'') = Inr (JStr (str '' hello  ''))"
    by (simp add: graphql_body_sel)
  have valid: "trim (str '' hello  '') \<noteq> []"
    by (simp add: trim_def isWhiteSpace_def str_def)
  from upstream_request_verbatim [OF post_request_sel graphql_body_sel(1) str_nonempty(2)
         classify_examples(2) graphql_body_sel(2) vars valid]
  show ?thesis .
qed

section \<open>The method gate\<close>

text \<open>
  Claim C7. An \<^verbatim>\<open>OPTIONS\<close> request is answered with status 204, no body and the CORS
  headers only; a request whose method is neither \<^verbatim>\<open>OPTIONS\<close> nor \<^verbatim>\<open>POST\<close> is
  answered with status 405 and the body \<^verbatim>\<open>{ errors: [{ message }] }\<close> carrying the
  only-POST-supported message. Both answers are fixed: they depend on nothing in the
  request body, the world or the environment, and no effect happens (the body is not
  read, the upstream is not called).
\<close>

theorem method_gate:
  "(req_method rq = str ''OPTIONS'' \<longrightarrow>
      fetch pf w rq e =
        Inr \<lparr> response = \<lparr> status = 204, headers = corsHeaders, body_json = None \<rparr>,
              events = [] \<rparr>)
   \<and> (req_method rq \<noteq> str ''OPTIONS'' \<and> req_method rq \<noteq> str ''POST'' \<longrightarrow>
      fetch pf w rq e =
        Inr \<lparr> response =
                \<lparr> status = 405,
                  headers = (str ''Content-Type'', str ''application/json'') # corsHeaders,
                  body_json =
                    Some (JObj [(str ''errors'',
                                 JArr [JObj [(str ''message'', JStr msg_only_post)]])]) \<rparr>,
              events = [] \<rparr>)"
  by (simp add: fetch_def jsonHeaders_def errors_body_def)

theorem method_gate_witness:
  "fetch example_platform (example_world (Inl NonError))
     \<lparr> req_method = str ''OPTIONS'', req_json = Inl NonError \<rparr> example_env =
     Inr \<lparr> response = \<lparr> status = 204, headers = corsHeaders, body_json = None \<rparr>,
           events = [] \<rparr>
   \<and> fetch example_platform (example_world (Inl NonError))
       \<lparr> req_method = str ''GET'', req_json = Inl NonError \<rparr> example_env =
     Inr \<lparr> response =
             \<lparr> status = 405,
               headers = (str ''Content-Type'', str ''application/json'') # corsHeaders,
               body_json =
                 Some (JObj [(str ''errors'',
                              JArr [JObj [(str ''message'', JStr msg_only_post)]])]) \<rparr>,
           events = [] \<rparr>"
  using method_gate [of "\<lparr> req_method = str ''OPTIONS'', req_json = Inl NonError \<rparr>"
                        example_platform "example_world (Inl NonError)" example_env]
        method_gate [of "\<lparr> req_method = str ''GET'', req_json = Inl NonError \<rparr>"
                        example_platform "example_world (Inl NonError)" example_env]
  by (simp add: method_literals)

section \<open>Transport-level errors of a POST\<close>

text \<open>
  Claim C8. A \<^verbatim>\<open>POST\<close> whose JSON body is not \<^verbatim>\<open>null\<close> and has no \<^verbatim>\<open>query\<close>
  field (reading \<^verbatim>\<open>body.query\<close> yields \<^verbatim>\<open>undefined\<close>: an object without that key,
  or an array, string, number or boolean) is answered with status 400 and the
  invalid-request message. A \<^verbatim>\<open>POST\<close> whose body is not JSON (\<^verbatim>\<open>request.json()\<close>
  rejects), or during which any exception leaves the outer \<^verbatim>\<open>try\<close> block, is
  answered with status 500 and the generic message. For every request, of any method,
  the promise returned by \<open>fetch\<close> resolves: no exception crosses the outermost
  boundary. The 400 clause leaves the JSON body \<^verbatim>\<open>null\<close> out: it has no
  \<^verbatim>\<open>query\<close> field either, but reading \<^verbatim>\<open>null.query\<close> at line 82 throws and the
  outer \<^verbatim>\<open>catch\<close> answers 500, as the evaluation after the theorem shows.
\<close>

theorem post_transport_errors:
  "(req_method rq = str ''POST'' \<and> req_json rq = Inr b
      \<and> get_prop pf b (str ''query'') = Inr JUndefined \<longrightarrow>
      fetch pf w rq e =
        Inr \<lparr> response =
                \<lparr> status = 400,
                  headers = (str ''Content-Type'', str ''application/json'') # corsHeaders,
                  body_json =
                    Some (JObj [(str ''errors'',
                                 JArr [JObj [(str ''message'', JStr msg_invalid_request)]])]) \<rparr>,
              events = [BodyRead] \<rparr>)
   \<and> (req_method rq = str ''POST'' \<and> (req_json rq = Inl err \<or> post_try pf w rq e = Inl err) \<longrightarrow>
      fetch pf w rq e =
        Inr \<lparr> response =
                \<lparr> status = 500,
                  headers = (str ''Content-Type'', str ''application/json'') # corsHeaders,
                  body_json =
                    Some (JObj [(str ''errors'',
                                 JArr [JObj [(str ''message'', JStr msg_processing_failed)]])]) \<rparr>,
              events = [BodyRead, ConsoleError [LogText msg_log_failed, LogExn err]] \<rparr>)
   \<and> (\<exists>out. fetch pf w rq e = Inr out)"
proof (intro conjI impI)
  assume "req_method rq = str ''POST'' \<and> req_json rq = Inr b
      \<and> get_prop pf b (str ''query'') = Inr JUndefined"
  then show "fetch pf w rq e =
        Inr \<lparr> response =
                \<lparr> status = 400,
                  headers = (str ''Content-Type'', str ''application/json'') # corsHeaders,
                  body_json =
                    Some (JObj [(str ''errors'',
                                 JArr [JObj [(str ''message'', JStr msg_invalid_request)]])]) \<rparr>,
              events = [BodyRead] \<rparr>"
    by (simp add: fetch_POST post_try_falsy jsonHeaders_def errors_body_def)
next
  assume a: "req_method rq = str ''POST'' \<and> (req_json rq = Inl err \<or> post_try pf w rq e = Inl err)"
  then have "post_try pf w rq e = Inl err"
    by (auto simp: post_try_def)
  with a show "fetch pf w rq e =
        Inr \<lparr> response =
                \<lparr> status = 500,
                  headers = (str ''Content-Type'', str ''application/json'') # corsHeaders,
                  body_json =
                    Some (JObj [(str ''errors'',
                                 JArr [JObj [(str ''message'', JStr msg_processing_failed)]])]) \<rparr>,
              events = [BodyRead, ConsoleError [LogText msg_log_failed, LogExn err]] \<rparr>"
    by (simp add: fetch_POST jsonHeaders_def errors_body_def)
next
  show "\<exists>out. fetch pf w rq e = Inr out"
    by (simp add: fetch_def split: sum.split prod.split)
qed

theorem post_transport_errors_witness:
  "fetch example_platform (example_world (Inl NonError)) (post_request (JObj [])) example_env =
     Inr \<lparr> response =
             \<lparr> status = 400,
               headers = (str ''Content-Type'', str ''application/json'') # corsHeaders,
               body_json =
                 Some (JObj [(str ''errors'',
                              JArr [JObj [(str ''message'', JStr msg_invalid_request)]])]) \<rparr>,
           events = [BodyRead] \<rparr>
   \<and> fetch example_platform (example_world (Inl NonError))
       \<lparr> req_method = str ''POST'', req_json = Inl (ErrorInstance (str ''Unexpected token'')) \<rparr>
       example_env =
     Inr \<lparr> response =
             \<lparr> status = 500,
               headers = (str ''Content-Type'', str ''application/json'') # corsHeaders,
               body_json =
                 Some (JObj [(str ''errors'',
                              JArr [JObj [(str ''message'', JStr msg_processing_failed)]])]) \<rparr>,
           events = [BodyRead,
                     ConsoleError [LogText msg_log_failed,
                                   LogExn (ErrorInstance (str ''Unexpected token''))]] \<rparr>
   \<and> fetch example_platform (example_world (Inl NonError)) (post_request JNull) example_env =
     Inr \<lparr> response =
             \<lparr> status = 500,
               headers = (str ''Content-Type'', str ''application/json'') # corsHeaders,
               body_json =
                 Some (JObj [(str ''errors'',
                              JArr [JObj [(str ''message'', JStr msg_processing_failed)]])]) \<rparr>,
           events = [BodyRead,
                     ConsoleError [LogText msg_log_failed,
                                   LogExn (ErrorInstance
                                     (str ''Cannot read properties of undefined''))]] \<rparr>"
proof -
  have a: "req_method (post_request (JObj [])) = str ''POST''
           \<and> req_json (post_request (JObj [])) = Inr (JObj [])
           \<and> get_prop example_platform (JObj []) (str ''query'') = Inr JUndefined"
    by (simp add: post_request_def get_prop_def)
  have b: "req_method \<lparr> req_method = str ''POST'',
                          req_json = Inl (ErrorInstance (str ''Unexpected token'')) \<rparr> = str ''POST''
           \<and> (req_json \<lparr> req_method = str ''POST'',
                          req_json = Inl (ErrorInstance (str ''Unexpected token'')) \<rparr>
                = Inl (ErrorInstance (str ''Unexpected token''))
              \<or> post_try example_platform (example_world (Inl NonError))
                   \<lparr> req_method = str ''POST'',
                     req_json = Inl (ErrorInstance (str ''Unexpected token'')) \<rparr> example_env
                = Inl (ErrorInstance (str ''Unexpected token'')))"
    by simp
  have c: "req_method (post_request JNull) = str ''POST''
           \<and> (req_json (post_request JNull)
                = Inl (ErrorInstance (str ''Cannot read properties of undefined''))
              \<or> post_try example_platform (example_world (Inl NonError)) (post_request JNull)
                   example_env
                = Inl (ErrorInstance (str ''Cannot read properties of undefined'')))"
    by (simp add: post_request_def post_try_def get_prop_def typeError_def example_platform_def)
  from a b c
    post_transport_errors [where rq = "post_request (JObj [])" and b = "JObj []"
                             and pf = example_platform
                             and w = "example_world (Inl NonError)" and e = example_env]
    post_transport_errors [where rq = "\<lparr> req_method = str ''POST'',
                                  req_json = Inl (ErrorInstance (str ''Unexpected token'')) \<rparr>"
                             and pf = example_platform
                             and err = "ErrorInstance (str ''Unexpected token'')"
                             and w = "example_world (Inl NonError)" and e = example_env]
    post_transport_errors [where rq = "post_request JNull" and pf = example_platform
                             and err = "ErrorInstance (str ''Cannot read properties of undefined'')"
                             and w = "example_world (Inl NonError)" and e = example_env]
  show ?thesis by blast
qed

text \<open>
  The JSON body \<^verbatim>\<open>null\<close>: \<^verbatim>\<open>request.json()\<close> resolves, the body has no
  \<^verbatim>\<open>query\<close> field, and the answer has status 500, not 400.
\<close>

theorem null_body_counterexample:
  "req_method (post_request JNull) = str ''POST''
   \<and> req_json (post_request JNull) = Inr JNull
   \<and> get_prop example_platform JNull (str ''query'')
       = Inl (ErrorInstance (str ''Cannot read properties of undefined''))
   \<and> fetch example_platform (example_world (Inl NonError)) (post_request JNull) example_env =
     Inr \<lparr> response =
             \<lparr> status = 500,
               headers = (str ''Content-Type'', str ''application/json'') # corsHeaders,
               body_json =
                 Some (JObj [(str ''errors'',
                              JArr [JObj [(str ''message'', JStr msg_processing_failed)]])]) \<rparr>,
           events = [BodyRead,
                     ConsoleError [LogText msg_log_failed,
                                   LogExn (ErrorInstance
                                     (str ''Cannot read properties of undefined''))]] \<rparr>"
proof -
  have fault: "get_prop example_platform JNull (str ''query'')
                 = Inl (ErrorInstance (str ''Cannot read properties of undefined''))"
    by (simp add: get_prop_def typeError_def example_platform_def)
  then have "post_try example_platform (example_world (Inl NonError)) (post_request JNull)
               example_env
             = Inl (ErrorInstance (str ''Cannot read properties of undefined''))"
    by (simp add: post_try_def post_request_sel)
  with fault show ?thesis
    by (simp add: fetch_POST post_request_sel jsonHeaders_def errors_body_def)
qed

section \<open>The empty query\<close>

text \<open>
  Claim C9. A \<^verbatim>\<open>POST\<close> whose \<^verbatim>\<open>query\<close> is present but the empty string is
  answered with status 400 and the invalid-request message, exactly as an absent
  \<^verbatim>\<open>query\<close> is, because line 82 tests falsiness. The body is read and nothing else
  happens: the empty descriptor never reaches the classification and never gets the
  unsupported-query answer with status 200, although \<open>classify\<close> itself is defined on
  it (and yields \<open>Unsupported\<close>).
\<close>

theorem empty_query_rejected:
  assumes "req_method rq = str ''POST''"
    and "req_json rq = Inr b"
    and "get_prop pf b (str ''query'') = Inr (JStr [])"
  shows "fetch pf w rq e =
           Inr \<lparr> response =
                   \<lparr> status = 400,
                     headers = (str ''Content-Type'', str ''application/json'') # corsHeaders,
                     body_json =
                       Some (JObj [(str ''errors'',
                                    JArr [JObj [(str ''message'', JStr msg_invalid_request)]])]) \<rparr>,
                 events = [BodyRead] \<rparr>
         \<and> classify [] = Unsupported"
proof -
  have "\<not> truthy (JStr [])" by simp
  from post_try_falsy [OF assms(2) assms(3) this]
  have "post_try pf w rq e =
          Inr (\<lparr> status = 400, headers = jsonHeaders,
                  body_json = Some (errors_body msg_invalid_request) \<rparr>, [])" .
  moreover have "classify [] = Unsupported"
    by (simp add: classify_def str_def)
  ultimately show ?thesis
    using assms(1) by (simp add: fetch_POST jsonHeaders_def errors_body_def)
qed

theorem empty_query_rejected_witness:
  "fetch example_platform (example_world (Inl NonError))
     (post_request (graphql_body (JStr []) (JStr (str ''hello'')))) example_env =
     Inr \<lparr> response =
             \<lparr> status = 400,
               headers = (str ''Content-Type'', str ''application/json'') # corsHeaders,
               body_json =
                 Some (JObj [(str ''errors'',
                              JArr [JObj [(str ''message'', JStr msg_invalid_request)]])]) \<rparr>,
           events = [BodyRead] \<rparr>
   \<and> classify [] = Unsupported"
proof -
  have a: "req_method (post_request (graphql_body (JStr []) (JStr (str ''hello'')))) = str ''POST''"
    by (simp add: post_request_def)
  have b: "req_json (post_request (graphql_body (JStr []) (JStr (str ''hello''))))
             = Inr (graphql_body (JStr []) (JStr (str ''hello'')))"
    by (simp add: post_request_def)
  have c: "get_prop example_platform (graphql_body (JStr []) (JStr (str ''hello'')))
             (str ''query'') = Inr (JStr [])"
    by (simp add: graphql_body_def get_prop_def)
  from empty_query_rejected [OF a b c] show ?thesis .
qed

section \<open>A 2xx answer without a first choice\<close>

text \<open>
  Claim C10. In a sendMessage invocation with valid input where the upstream answers
  with a 2xx status and a JSON body on which reading
  \<^verbatim>\<open>choices[0].message.content\<close> throws (a body whose \<^verbatim>\<open>choices\<close> is the empty
  array is one), the exception is caught by the inner \<^verbatim>\<open>catch\<close>: the HTTP status is
  200, the envelope's \<^verbatim>\<open>result\<close> is the empty string, and its \<^verbatim>\<open>error\<close> is the
  exception's message when the exception is an \<^verbatim>\<open>Error\<close>, else the generic fallback
  string.
\<close>

theorem missing_choice_caught:
  assumes "req_method rq = str ''POST''"
    and "req_json rq = Inr b"
    and "get_prop pf b (str ''query'') = Inr (JStr q)"
    and "q \<noteq> []"
    and "classify (toLowerCase pf q) = SendMessage"
    and "get_prop pf b (str ''variables'') = Inr vs"
    and "get_prop pf (if truthy vs then vs else JObj []) (str ''input'') = Inr (JStr s)"
    and "trim s \<noteq> []"
    and "upstream w (upstream_call e s) = Inr r"
    and "resp_ok r"
    and "resp_json r = Inr d"
    and "get_prop pf d (str ''choices'') = Inr (JArr [])
         \<or> (\<exists>x. first_choice_content pf d = Inl x)"
  shows "\<exists>err. first_choice_content pf d = Inl err
           \<and> fetch pf w rq e =
               Inr \<lparr> response =
                       \<lparr> status = 200, headers = jsonHeaders,
                         body_json =
                           Some (sendMessage_data
                                   (envelope (JStr []) (randomUUID w) (toISOString w)
                                      (JStr (case err of
                                               ErrorInstance m \<Rightarrow> m
                                             | NonError \<Rightarrow> msg_processing_failed)))) \<rparr>,
                     events =
                       [BodyRead, UpstreamCall (upstream_call e s),
                        ConsoleError [LogText msg_log_failed, LogExn err]] \<rparr>"
proof -
  from assms(12) obtain err where err: "first_choice_content pf d = Inl err"
    using first_choice_content_no_choices by blast
  with assms(9-11) have "sendMessage_try pf w e s = Inl err"
    by (simp add: sendMessage_try_def)
  from sendMessage_caught [OF assms(7,8) this] err show ?thesis
    by (simp add: fetch_sendMessage [OF assms(1-6)])
qed

theorem missing_choice_caught_witness:
  "\<exists>err. first_choice_content example_platform (JObj [(str ''choices'', JArr [])]) = Inl err
       \<and> fetch example_platform (example_world (Inr (completion [])))
           (post_request (graphql_body (JStr (str ''mutation sendMessage'')) (JStr (str ''hello''))))
           example_env =
           Inr \<lparr> response =
                   \<lparr> status = 200, headers = jsonHeaders,
                     body_json =
                       Some (sendMessage_data
                               (envelope (JStr []) (randomUUID (example_world (Inr (completion []))))
                                  (toISOString (example_world (Inr (completion []))))
                                  (JStr (case err of
                                           ErrorInstance m \<Rightarrow> m
                                         | NonError \<Rightarrow> msg_processing_failed)))) \<rparr>,
                 events =
                   [BodyRead, UpstreamCall (upstream_call example_env (str ''hello'')),
                    ConsoleError [LogText msg_log_failed, LogExn err]] \<rparr>"
proof -
  have none: "get_prop example_platform (JObj [(str ''choices'', JArr [])]) (str ''choices'')
                = Inr (JArr [])
              \<or> (\<exists>x. first_choice_content example_platform (JObj [(str ''choices'', JArr [])])
                         = Inl x)"
    by (simp add: get_prop_def)
  from missing_choice_caught [OF post_request_sel graphql_body_sel(1) str_nonempty(1)
         classify_examples(1) graphql_body_sel(2) input_examples trim_examples
         example_world_sel(1) completion_sel none]
  show ?thesis .
qed

end
